theory Spec2Isabelle
  imports
    Main
    "HOL-Library.Word"
    "HOL-Library.Char_ord"
    "HOL-Library.List_Lexorder"
    "HOL-Library.Product_Lexorder"
begin

unbundle bit_operations_syntax

section \<open>Data\<close>

text \<open>
  Python \<open>bytes\<close> are lists of 8-bit words. A Python \<open>str\<close> is a sequence of code points;
  it is represented by the bytes that write each code point in the UTF-8 manner, held in a
  HOL \<open>string\<close> (a HOL character is one byte), so that concatenating two \<open>str\<close> values is
  list append. A \<open>str\<close> may hold a lone surrogate, which UTF-8 does not encode: it is written
  in the same three-byte form as the other code points of its range (\<open>ED A0..BF 80..BF\<close>, what
  the \<open>surrogatepass\<close> handler writes). \<open>code_points\<close> below reads the code points back. A
  \<open>str\<close> can be encoded exactly when it holds no surrogate, that is when its bytes are valid
  UTF-8, and then they are its encoding.
\<close>

type_synonym byte = "8 word"
type_synonym bytes = "byte list"

text \<open>The exceptions that the modelled code and its libraries raise, as values.\<close>

datatype exn =
    ValueError string
  | OSError string
  | PersistenceError string
  | ResponseValidationError string
  | UnicodeEncodeError string
  | HTTPException nat string

fun str_exn :: "exn \<Rightarrow> string" where
  "str_exn (ValueError m) = m"
| "str_exn (OSError m) = m"
| "str_exn (PersistenceError m) = m"
| "str_exn (ResponseValidationError m) = m"
| "str_exn (UnicodeEncodeError m) = m"
| "str_exn (HTTPException c m) = m"

text \<open>The bytes of a \<open>str\<close>: its UTF-8 encoding when it has one.\<close>

definition encode_utf8 :: "string \<Rightarrow> bytes" where
  "encode_utf8 s = map of_char s"

text \<open>
  The code points of a \<open>str\<close>, read from its bytes: one, two, three or four bytes in the
  UTF-8 manner (no overlong form, nothing above \<open>U+10FFFF\<close>; the three-byte forms include the
  surrogates). A byte that begins no such form stands for the lone surrogate \<open>U+DC00 + byte\<close>,
  which is how \<open>os.environ\<close> reads a byte of the environment that does not decode.
\<close>

definition in_range :: "char \<Rightarrow> nat \<Rightarrow> nat \<Rightarrow> bool" where
  "in_range c lo hi = (lo \<le> of_char c \<and> (of_char c :: nat) \<le> hi)"

fun code_points :: "string \<Rightarrow> nat list" where
  "code_points [] = []"
| "code_points (a # s) =
     (let x = (of_char a :: nat) in
      if x < 0x80 then x # code_points s
      else if 0xC2 \<le> x \<and> x \<le> 0xDF then
        (case s of
           b # t \<Rightarrow>
             if in_range b 0x80 0xBF
             then ((x - 0xC0) * 64 + (of_char b - 0x80)) # code_points t
             else (0xDC00 + x) # code_points s
         | [] \<Rightarrow> (0xDC00 + x) # code_points s)
      else if 0xE0 \<le> x \<and> x \<le> 0xEF then
        (case s of
           b # c # t \<Rightarrow>
             if in_range b (if x = 0xE0 then 0xA0 else 0x80) 0xBF \<and> in_range c 0x80 0xBF
             then ((x - 0xE0) * 4096 + (of_char b - 0x80) * 64 + (of_char c - 0x80))
                    # code_points t
             else (0xDC00 + x) # code_points s
         | [b] \<Rightarrow> (0xDC00 + x) # code_points s
         | [] \<Rightarrow> (0xDC00 + x) # code_points s)
      else if 0xF0 \<le> x \<and> x \<le> 0xF4 then
        (case s of
           b # c # d # t \<Rightarrow>
             if in_range b (if x = 0xF0 then 0x90 else 0x80) (if x = 0xF4 then 0x8F else 0xBF)
                \<and> in_range c 0x80 0xBF \<and> in_range d 0x80 0xBF
             then ((x - 0xF0) * 262144 + (of_char b - 0x80) * 4096 + (of_char c - 0x80) * 64
                     + (of_char d - 0x80)) # code_points t
             else (0xDC00 + x) # code_points s
         | [b, c] \<Rightarrow> (0xDC00 + x) # code_points s
         | [b] \<Rightarrow> (0xDC00 + x) # code_points s
         | [] \<Rightarrow> (0xDC00 + x) # code_points s)
      else (0xDC00 + x) # code_points s)"

definition is_surrogate :: "nat \<Rightarrow> bool" where
  "is_surrogate c = (0xD800 \<le> c \<and> c \<le> 0xDFFF)"

text \<open>A \<open>str\<close> has a UTF-8 encoding exactly when it holds no surrogate.\<close>

definition valid_utf8 :: "string \<Rightarrow> bool" where
  "valid_utf8 s = list_all (\<lambda>c. \<not> is_surrogate c) (code_points s)"

text \<open>
  The text of the \<open>UnicodeEncodeError\<close> that the strict codec raises: it names the first run
  of surrogates, by the character when the run has one and by its positions otherwise.
\<close>

definition hex_digits :: string where
  "hex_digits = ''0123456789abcdef''"

function str_nat :: "nat \<Rightarrow> string" where
  "str_nat n =
     (if n < 10 then [hex_digits ! n] else str_nat (n div 10) @ [hex_digits ! (n mod 10)])"
  by pat_completeness auto
termination
  by (relation "measure id") auto

declare str_nat.simps [simp del]

definition hex4 :: "nat \<Rightarrow> string" where
  "hex4 c =
     [hex_digits ! (c div 4096 mod 16), hex_digits ! (c div 256 mod 16),
      hex_digits ! (c div 16 mod 16), hex_digits ! (c mod 16)]"

definition encode_error_message :: "string \<Rightarrow> string" where
  "encode_error_message s =
     (let cps = code_points s;
          start = length (takeWhile (\<lambda>c. \<not> is_surrogate c) cps);
          run = takeWhile is_surrogate (drop start cps)
      in [CHR 0x27] @ ''utf-8'' @ [CHR 0x27] @ '' codec can'' @ [CHR 0x27] @ ''t encode ''
         @ (if length run = 1
            then ''character '' @ [CHR 0x27, CHR 0x5C] @ ''u'' @ hex4 (hd run) @ [CHR 0x27]
                 @ '' in position '' @ str_nat start
            else ''characters in position '' @ str_nat start @ ''-''
                 @ str_nat (start + length run - 1))
         @ '': surrogates not allowed'')"

text \<open>
  \<open>s.encode('utf-8')\<close>: the bytes of \<open>s\<close>, or \<open>UnicodeEncodeError\<close> when \<open>s\<close> holds a lone
  surrogate.
\<close>

definition str_encode :: "string \<Rightarrow> exn + bytes" where
  "str_encode s =
     (if valid_utf8 s then Inr (encode_utf8 s)
      else Inl (UnicodeEncodeError (encode_error_message s)))"

section \<open>encryption_utils.py\<close>

subsection \<open>Key derivation\<close>

definition DEV_FALLBACK_KEY :: string where
  "DEV_FALLBACK_KEY = ''dev_aes_256_key_32_bytes_long_12345678901234567890''"

text \<open>\<open>bytes.ljust(width, fill)\<close>: pad on the right up to \<open>width\<close>, never truncate.\<close>

definition ljust :: "nat \<Rightarrow> byte \<Rightarrow> bytes \<Rightarrow> bytes" where
  "ljust width fill bs = bs @ replicate (width - length bs) fill"

text \<open>
  \<open>get_encryption_key\<close>: the argument is the value of \<open>os.environ.get('ENCRYPTION_KEY')\<close>,
  \<open>None\<close> when the variable is not set. \<open>os.environ\<close> reads a byte of the environment that
  does not decode as a lone surrogate (the byte \<open>FF\<close> as \<open>U+DCFF\<close>), and such a value does
  not encode: \<open>key.encode('utf-8')\<close> raises. The fill byte \<open>b'0'\<close> is the ASCII digit,
  \<open>0x30\<close>.
\<close>

definition get_encryption_key :: "string option \<Rightarrow> exn + bytes" where
  "get_encryption_key env =
     (let key = (case env of Some v \<Rightarrow> v | None \<Rightarrow> DEV_FALLBACK_KEY)
      in (case str_encode key of
            Inl e \<Rightarrow> Inl e
          | Inr encoded \<Rightarrow> Inr (ljust 32 0x30 (take 32 encoded))))"

subsection \<open>PKCS#7 padding (Crypto.Util.Padding)\<close>

definition pad :: "bytes \<Rightarrow> nat \<Rightarrow> bytes" where
  "pad data_to_pad block_size =
     (let padding_len = block_size - length data_to_pad mod block_size
      in data_to_pad @ replicate padding_len (of_nat padding_len))"

definition unpad :: "bytes \<Rightarrow> nat \<Rightarrow> exn + bytes" where
  "unpad padded_data block_size =
     (let pdata_len = length padded_data in
      if pdata_len = 0 then Inl (ValueError ''Zero-length input cannot be unpadded'')
      else if pdata_len mod block_size \<noteq> 0 then Inl (ValueError ''Input data is not padded'')
      else
        let padding_len = unat (last padded_data) in
        if padding_len < 1 \<or> padding_len > min block_size pdata_len
        then Inl (ValueError ''Padding is incorrect.'')
        else if drop (pdata_len - padding_len) padded_data
                  \<noteq> replicate padding_len (last padded_data)
        then Inl (ValueError ''PKCS#7 padding is incorrect.'')
        else Inr (take (pdata_len - padding_len) padded_data))"

subsection \<open>AES in CBC mode (Crypto.Cipher.AES)\<close>

text \<open>
  The AES block transformation is the library's: it is a parameter of the model, a pair of
  functions from a key and a 16-byte block to a 16-byte block. The mode of operation, the
  argument checks of \<open>AES.new\<close> and of \<open>encrypt\<close>/\<open>decrypt\<close>, and the padding are written out.
\<close>

type_synonym block_fun = "bytes \<Rightarrow> bytes \<Rightarrow> bytes"

definition AES_block_size :: nat where
  "AES_block_size = 16"

definition xor_bytes :: "bytes \<Rightarrow> bytes \<Rightarrow> bytes" where
  "xor_bytes a b = map2 (XOR) a b"

record cbc_cipher =
  cipher_key :: bytes
  cipher_iv :: bytes

definition AES_new_CBC :: "bytes \<Rightarrow> bytes \<Rightarrow> exn + cbc_cipher" where
  "AES_new_CBC key iv =
     (if length key \<noteq> 16 \<and> length key \<noteq> 24 \<and> length key \<noteq> 32
      then Inl (ValueError ''Incorrect AES key length'')
      else if length iv \<noteq> AES_block_size
      then Inl (ValueError ''Incorrect IV length (it must be 16 bytes long)'')
      else Inr \<lparr>cipher_key = key, cipher_iv = iv\<rparr>)"

function cbc_chain_encrypt :: "(bytes \<Rightarrow> bytes) \<Rightarrow> bytes \<Rightarrow> bytes \<Rightarrow> bytes" where
  "cbc_chain_encrypt e prev data =
     (if data = [] then []
      else let c = e (xor_bytes (take 16 data) prev)
           in c @ cbc_chain_encrypt e c (drop 16 data))"
  by pat_completeness auto
termination
  by (relation "measure (\<lambda>(e, prev, data). length data)") auto

declare cbc_chain_encrypt.simps [simp del]

function cbc_chain_decrypt :: "(bytes \<Rightarrow> bytes) \<Rightarrow> bytes \<Rightarrow> bytes \<Rightarrow> bytes" where
  "cbc_chain_decrypt d prev data =
     (if data = [] then []
      else let c = take 16 data
           in xor_bytes (d c) prev @ cbc_chain_decrypt d c (drop 16 data))"
  by pat_completeness auto
termination
  by (relation "measure (\<lambda>(d, prev, data). length data)") auto

declare cbc_chain_decrypt.simps [simp del]

definition cbc_encrypt :: "block_fun \<Rightarrow> cbc_cipher \<Rightarrow> bytes \<Rightarrow> exn + bytes" where
  "cbc_encrypt E cipher plaintext =
     (if length plaintext mod AES_block_size \<noteq> 0
      then Inl (ValueError ''Data must be padded to 16 byte boundary in CBC mode'')
      else Inr (cbc_chain_encrypt (E (cipher_key cipher)) (cipher_iv cipher) plaintext))"

definition cbc_decrypt :: "block_fun \<Rightarrow> cbc_cipher \<Rightarrow> bytes \<Rightarrow> exn + bytes" where
  "cbc_decrypt D cipher ciphertext =
     (if length ciphertext mod AES_block_size \<noteq> 0
      then Inl (ValueError ''Data must be padded to 16 byte boundary in CBC mode'')
      else Inr (cbc_chain_decrypt (D (cipher_key cipher)) (cipher_iv cipher) ciphertext))"

subsection \<open>The entropy source\<close>

text \<open>
  A source of values that a program reads one after the other (the bytes of the operating
  system's generator, the readings of the clock) is the infinite sequence of the values still
  to come. \<open>get_random_bytes(n)\<close> returns the next \<open>n\<close> bytes and the source after them.
\<close>

type_synonym 'a source = "nat \<Rightarrow> 'a"

definition get_random_bytes :: "nat \<Rightarrow> byte source \<Rightarrow> bytes \<times> byte source" where
  "get_random_bytes n rnd = (map rnd [0..<n], (\<lambda>i. rnd (i + n)))"

subsection \<open>Encryption of a file\<close>

definition encrypt_file_content ::
  "block_fun \<Rightarrow> string option \<Rightarrow> bytes \<Rightarrow> byte source \<Rightarrow> (exn + bytes \<times> bytes) \<times> byte source"
where
  "encrypt_file_content E env file_content rnd =
     (case get_encryption_key env of
        Inl e \<Rightarrow> (Inl e, rnd)
      | Inr key \<Rightarrow>
          (let (iv, rnd') = get_random_bytes 16 rnd
           in (case AES_new_CBC key iv of
                 Inl e \<Rightarrow> (Inl e, rnd')
               | Inr cipher \<Rightarrow>
                   (let padded_content = pad file_content AES_block_size
                    in (case cbc_encrypt E cipher padded_content of
                          Inl e \<Rightarrow> (Inl e, rnd')
                        | Inr encrypted_content \<Rightarrow> (Inr (encrypted_content, iv), rnd'))))))"

text \<open>
  The repository has no decryption path. The inverse operation of the library, used to state
  the round trip, is \<open>unpad(AES.new(key, AES.MODE_CBC, iv).decrypt(data), AES.block_size)\<close>
  with the key of \<open>get_encryption_key\<close>.
\<close>

definition decrypt_file_content ::
  "block_fun \<Rightarrow> string option \<Rightarrow> bytes \<Rightarrow> bytes \<Rightarrow> exn + bytes"
where
  "decrypt_file_content D env encrypted_content iv =
     (case get_encryption_key env of
        Inl e \<Rightarrow> Inl e
      | Inr key \<Rightarrow>
          (case AES_new_CBC key iv of
             Inl e \<Rightarrow> Inl e
           | Inr cipher \<Rightarrow>
               (case cbc_decrypt D cipher encrypted_content of
                  Inl e \<Rightarrow> Inl e
                | Inr padded_content \<Rightarrow> unpad padded_content AES_block_size)))"

text \<open>
  What the model asks of the block transformation: with a 32-byte key, a 16-byte block is
  mapped to a 16-byte block and the decryption direction undoes the encryption direction.
\<close>

definition block_cipher_inverts :: "block_fun \<Rightarrow> block_fun \<Rightarrow> bool" where
  "block_cipher_inverts E D =
     (\<forall>k b. length k = 32 \<and> length b = 16 \<longrightarrow> length (E k b) = 16 \<and> D k (E k b) = b)"

subsection \<open>Digests\<close>

text \<open>
  The hash functions are \<open>hashlib\<close>'s: \<open>sha3_512\<close> and \<open>sha256\<close> are parameters of the model,
  functions from the bytes hashed to a digest of 512 and of 256 bits. \<open>hexdigest\<close> writes a
  digest as lower-case hexadecimal digits, most significant first.
\<close>

definition nibble :: "'a::len word \<Rightarrow> nat \<Rightarrow> nat" where
  "nibble w i = unat (take_bit 4 (drop_bit (4 * i) w))"

definition hexdigest :: "'a::len word \<Rightarrow> string" where
  "hexdigest w = map (\<lambda>i. hex_digits ! nibble w i) (rev [0..<LENGTH('a) div 4])"

definition generate_sha3_512_hash :: "(bytes \<Rightarrow> 512 word) \<Rightarrow> bytes \<Rightarrow> string" where
  "generate_sha3_512_hash sha3_512 content = hexdigest (sha3_512 content)"

definition generate_sha256_hash :: "(bytes \<Rightarrow> 256 word) \<Rightarrow> string \<Rightarrow> exn + string" where
  "generate_sha256_hash sha256 content =
     (case str_encode content of
        Inl e \<Rightarrow> Inl e
      | Inr encoded \<Rightarrow> Inr (hexdigest (sha256 encoded)))"

section \<open>server.py\<close>

subsection \<open>Library functions used by the routes\<close>

text \<open>\<open>base64.b64encode(bs).decode('utf-8')\<close>: the standard alphabet, padded with \<open>=\<close>.\<close>

definition b64_alphabet :: string where
  "b64_alphabet = ''ABCDEFGHIJKLMNOPQRSTUVWXYZabcdefghijklmnopqrstuvwxyz0123456789+/''"

definition b64_char :: "byte \<Rightarrow> char" where
  "b64_char v = b64_alphabet ! unat (v AND 63)"

fun b64encode :: "bytes \<Rightarrow> string" where
  "b64encode [] = []"
| "b64encode [a] =
     [b64_char (drop_bit 2 a), b64_char (push_bit 4 (a AND 3)), CHR ''='', CHR ''='']"
| "b64encode [a, b] =
     [b64_char (drop_bit 2 a), b64_char (push_bit 4 (a AND 3) OR drop_bit 4 b),
      b64_char (push_bit 2 (b AND 15)), CHR ''='']"
| "b64encode (a # b # c # rest) =
     [b64_char (drop_bit 2 a), b64_char (push_bit 4 (a AND 3) OR drop_bit 4 b),
      b64_char (push_bit 2 (b AND 15) OR drop_bit 6 c), b64_char c] @ b64encode rest"

text \<open>
  \<open>str(uuid.uuid4())\<close>: sixteen bytes of the entropy source read as a big-endian integer,
  the variant and version bits set, printed as 32 hexadecimal digits in groups 8-4-4-4-12.
\<close>

definition int_from_bytes_big :: "bytes \<Rightarrow> 128 word" where
  "int_from_bytes_big bs = foldl (\<lambda>acc b. push_bit 8 acc OR ucast b) 0 bs"

definition uuid4_int :: "bytes \<Rightarrow> 128 word" where
  "uuid4_int bs =
     (let i0 = int_from_bytes_big bs;
          i1 = i0 AND NOT (push_bit 48 0xc000);
          i2 = i1 OR push_bit 48 0x8000;
          i3 = i2 AND NOT (push_bit 64 0xf000)
      in i3 OR push_bit 76 4)"

definition str_uuid :: "128 word \<Rightarrow> string" where
  "str_uuid i =
     (let hex = hexdigest i
      in take 8 hex @ ''-'' @ take 4 (drop 8 hex) @ ''-'' @ take 4 (drop 12 hex) @ ''-''
           @ take 4 (drop 16 hex) @ ''-'' @ drop 20 hex)"

definition uuid4_str :: "byte source \<Rightarrow> string \<times> byte source" where
  "uuid4_str rnd = (let (bs, rnd') = get_random_bytes 16 rnd in (str_uuid (uuid4_int bs), rnd'))"

subsection \<open>Documents and the store\<close>

text \<open>
  A document is a Python \<open>dict\<close> with string keys, in insertion order. The values that the
  routes write are strings; the store adds an \<open>_id\<close>.
\<close>

datatype bson = Str string | ObjectId nat

type_synonym doc = "(string \<times> bson) list"

definition doc_keys :: "doc \<Rightarrow> string list" where
  "doc_keys d = map fst d"

definition doc_get :: "doc \<Rightarrow> string \<Rightarrow> bson option" where
  "doc_get d k = map_of d k"

text \<open>
  The store holds the two collections. \<open>reachable\<close> is the collaborator's availability: an
  operation on an unreachable store raises and leaves the collections as they are. What the
  store does with a document it cannot take is its own; the routes are modelled on a store
  that takes the documents they hand it.
\<close>

record database =
  bids :: "doc list"
  tender_updates :: "doc list"
  next_oid :: nat
  reachable :: bool

text \<open>\<open>insert_one\<close> on a collection: the document gets a fresh \<open>_id\<close> and is appended.\<close>

definition insert_one_bids :: "doc \<Rightarrow> database \<Rightarrow> (exn + unit) \<times> database" where
  "insert_one_bids d dbs =
     (if \<not> reachable dbs then (Inl (PersistenceError ''store unreachable''), dbs)
      else (Inr (),
            dbs\<lparr>bids := bids dbs @ [d @ [(''_id'', ObjectId (next_oid dbs))]],
                next_oid := Suc (next_oid dbs)\<rparr>))"

definition insert_one_tender_updates :: "doc \<Rightarrow> database \<Rightarrow> (exn + unit) \<times> database" where
  "insert_one_tender_updates d dbs =
     (if \<not> reachable dbs then (Inl (PersistenceError ''store unreachable''), dbs)
      else (Inr (),
            dbs\<lparr>tender_updates := tender_updates dbs @ [d @ [(''_id'', ObjectId (next_oid dbs))]],
                next_oid := Suc (next_oid dbs)\<rparr>))"

text \<open>
  The order in which the store compares the values of a field when it sorts: a missing
  field first, then strings by their bytes, then object identifiers.
\<close>

fun sort_rank :: "bson option \<Rightarrow> nat \<times> string \<times> nat" where
  "sort_rank None = (0, [], 0)"
| "sort_rank (Some (Str s)) = (1, s, 0)"
| "sort_rank (Some (ObjectId n)) = (2, [], n)"

definition sort_descending :: "string \<Rightarrow> doc list \<Rightarrow> doc list" where
  "sort_descending field ds = rev (sort_key (\<lambda>d. sort_rank (doc_get d field)) ds)"

text \<open>An inclusion projection that leaves \<open>_id\<close> out keeps the listed fields that are present.\<close>

definition project :: "string list \<Rightarrow> doc \<Rightarrow> doc" where
  "project projection d = filter (\<lambda>kv. fst kv \<in> set projection) d"

subsection \<open>The process state\<close>

text \<open>
  What the routes read and write outside their arguments: the environment variable that
  holds the key, the entropy source, the clock (the successive values of
  \<open>datetime.now(timezone.utc).isoformat()\<close>), the store, and the records written through
  \<open>logging\<close>.
\<close>

record world =
  ENCRYPTION_KEY :: "string option"
  urandom :: "byte source"
  clock :: "string source"
  db :: database
  log_records :: "string list"

subsection \<open>POST /api/seal-bid\<close>

record SealBidResponse =
  success :: bool
  bidHash :: string
  message :: string
  bidderId :: string

text \<open>
  The first argument after the library parameters is the outcome of \<open>await file.read()\<close>.
  Every exception raised inside the \<open>try\<close> block is turned into the HTTP error 500.
\<close>

definition seal_bid ::
  "block_fun \<Rightarrow> (bytes \<Rightarrow> 512 word) \<Rightarrow> exn + bytes \<Rightarrow> string \<Rightarrow> world
     \<Rightarrow> (exn + SealBidResponse) \<times> world"
where
  "seal_bid E sha3_512 file tender_id w =
     (case file of
        Inl e \<Rightarrow> (Inl (HTTPException 500 (''Failed to seal bid: '' @ str_exn e)), w)
      | Inr file_content \<Rightarrow>
          (let (enc, rnd1) = encrypt_file_content E (ENCRYPTION_KEY w) file_content (urandom w)
           in (case enc of
                 Inl e \<Rightarrow>
                   (Inl (HTTPException 500 (''Failed to seal bid: '' @ str_exn e)),
                    w\<lparr>urandom := rnd1\<rparr>)
               | Inr (encrypted_content, iv) \<Rightarrow>
                   (let bid_hash = generate_sha3_512_hash sha3_512 encrypted_content;
                        (bidder_id, rnd2) = uuid4_str rnd1;
                        timestamp = clock w 0;
                        sealed_bid =
                          [(''tenderId'', Str tender_id),
                           (''bidHash'', Str bid_hash),
                           (''timestamp'', Str timestamp),
                           (''bidderId'', Str bidder_id),
                           (''status'', Str ''SEALED''),
                           (''encryptedFileBase64'', Str (b64encode encrypted_content)),
                           (''iv'', Str (b64encode iv))];
                        w1 = w\<lparr>urandom := rnd2, clock := (\<lambda>i. clock w (Suc i))\<rparr>
                    in (case insert_one_bids sealed_bid (db w1) of
                          (Inl e, dbs) \<Rightarrow>
                            (Inl (HTTPException 500 (''Failed to seal bid: '' @ str_exn e)),
                             w1\<lparr>db := dbs\<rparr>)
                        | (Inr u, dbs) \<Rightarrow>
                            (Inr \<lparr>success = True,
                                  bidHash = bid_hash,
                                  message = ''Bid sealed successfully with AES-256 encryption'',
                                  bidderId = bidder_id\<rparr>,
                             w1\<lparr>db := dbs\<rparr>))))))"

subsection \<open>POST /api/tender-update\<close>

record TenderUpdate =
  tenderId :: string
  updateContent :: string
  updatedBy :: string

record TenderUpdateResponse =
  update_success :: bool
  updateHash :: string
  update_timestamp :: string

definition tender_update ::
  "(bytes \<Rightarrow> 256 word) \<Rightarrow> TenderUpdate \<Rightarrow> world \<Rightarrow> (exn + TenderUpdateResponse) \<times> world"
where
  "tender_update sha256 update w =
     (let update_content = tenderId update @ '':'' @ updateContent update @ '':'' @ updatedBy update
      in (case generate_sha256_hash sha256 update_content of
            Inl e \<Rightarrow>
              (Inl (HTTPException 500 (''Failed to log tender update: '' @ str_exn e)), w)
          | Inr update_hash \<Rightarrow>
              (let timestamp = clock w 0;
                   tender_update_doc =
                     [(''tenderId'', Str (tenderId update)),
                      (''updateContent'', Str (updateContent update)),
                      (''updatedBy'', Str (updatedBy update)),
                      (''updateHash'', Str update_hash),
                      (''timestamp'', Str timestamp)];
                   w1 = w\<lparr>clock := (\<lambda>i. clock w (Suc i))\<rparr>
               in (case insert_one_tender_updates tender_update_doc (db w1) of
                     (Inl e, dbs) \<Rightarrow>
                       (Inl (HTTPException 500 (''Failed to log tender update: '' @ str_exn e)),
                        w1\<lparr>db := dbs\<rparr>)
                   | (Inr u, dbs) \<Rightarrow>
                       (Inr \<lparr>update_success = True, updateHash = update_hash,
                             update_timestamp = timestamp\<rparr>,
                        w1\<lparr>db := dbs\<rparr>)))))"

subsection \<open>GET /api/audit-log\<close>

definition audit_fields :: "string list" where
  "audit_fields = [''tenderId'', ''bidHash'', ''timestamp'', ''bidderId'', ''status'']"

text \<open>The body of the route: find all, project, sort by \<open>timestamp\<close> descending, at most 1000.\<close>

definition get_audit_log :: "world \<Rightarrow> (exn + doc list) \<times> world" where
  "get_audit_log w =
     (if \<not> reachable (db w)
      then (Inl (HTTPException 500 (''Failed to fetch audit log: '' @ ''store unreachable'')), w)
      else (Inr (take 1000 (map (project audit_fields) (sort_descending ''timestamp'' (bids (db w))))),
            w))"

text \<open>
  The route declares \<open>response_model=List[AuditLogEntry]\<close>: each returned document is
  validated against the model (the five fields, each required and a string; other fields
  ignored) and serialised with the model's fields in their declared order. A document that
  does not validate fails the whole response.
\<close>

fun str_field :: "doc \<Rightarrow> string \<Rightarrow> exn + string \<times> bson" where
  "str_field d k =
     (case doc_get d k of
        Some (Str s) \<Rightarrow> Inr (k, Str s)
      | Some (ObjectId n) \<Rightarrow> Inl (ResponseValidationError k)
      | None \<Rightarrow> Inl (ResponseValidationError k))"

fun collect :: "(exn + 'a) list \<Rightarrow> exn + 'a list" where
  "collect [] = Inr []"
| "collect (Inl e # rs) = Inl e"
| "collect (Inr x # rs) = (case collect rs of Inl e \<Rightarrow> Inl e | Inr xs \<Rightarrow> Inr (x # xs))"

definition AuditLogEntry :: "doc \<Rightarrow> exn + doc" where
  "AuditLogEntry d = collect (map (str_field d) audit_fields)"

definition audit_log_route :: "world \<Rightarrow> (exn + doc list) \<times> world" where
  "audit_log_route w =
     (case get_audit_log w of
        (Inl e, w') \<Rightarrow> (Inl e, w')
      | (Inr found, w') \<Rightarrow>
          (case collect (map AuditLogEntry found) of
             Inl e \<Rightarrow> (Inl e, w')
           | Inr entries \<Rightarrow> (Inr entries, w')))"

subsection \<open>Collisions of a hash function\<close>

text \<open>Two different inputs with the same digest.\<close>

definition hash_collision :: "(bytes \<Rightarrow> 'a) \<Rightarrow> bytes \<Rightarrow> bytes \<Rightarrow> bool" where
  "hash_collision h a b = (a \<noteq> b \<and> h a = h b)"

text \<open>The timestamp string of an entry, to state the order of a returned list.\<close>

definition timestamp_of :: "doc \<Rightarrow> string" where
  "timestamp_of d =
     (case doc_get d ''timestamp'' of
        Some (Str t) \<Rightarrow> t
      | Some (ObjectId n) \<Rightarrow> []
      | None \<Rightarrow> [])"

section \<open>Stand-ins for the library primitives, to run the model on concrete inputs\<close>

text \<open>
  The theorems below hold for every block transformation and every hash function. To
  evaluate the model on a concrete input, the parameters are instantiated with these small
  functions; they have the types and the inverse property of the real ones and nothing else.
\<close>

definition demo_E :: block_fun where
  "demo_E k b = xor_bytes b (take 16 k)"

definition demo_D :: block_fun where
  "demo_D k b = xor_bytes b (take 16 k)"

definition demo_sha3_512 :: "bytes \<Rightarrow> 512 word" where
  "demo_sha3_512 bs = foldl (\<lambda>acc b. acc * 257 + ucast b + 1) 0 bs"

definition demo_sha256 :: "bytes \<Rightarrow> 256 word" where
  "demo_sha256 bs = foldl (\<lambda>acc b. acc * 257 + ucast b + 1) 0 bs"

definition demo_world :: world where
  "demo_world =
     \<lparr>ENCRYPTION_KEY = None,
      urandom = (\<lambda>i. of_nat (7 * i + 1)),
      clock = (\<lambda>i. ''2024-05-01T10:00:0'' @ [hex_digits ! (i mod 10)] @ ''+00:00''),
      db = \<lparr>bids = [], tender_updates = [], next_oid = 0, reachable = True\<rparr>,
      log_records = []\<rparr>"

text \<open>Three sealed records, appended out of temporal order.\<close>

definition demo_ledger :: "doc list" where
  "demo_ledger =
     [[(''tenderId'', Str ''TENDER-002''), (''bidHash'', Str ''b2b2''),
       (''timestamp'', Str ''2024-05-02T09:30:00+00:00''), (''bidderId'', Str ''bidder-2''),
       (''status'', Str ''SEALED''), (''encryptedFileBase64'', Str ''DQgVJRNKU2YAfnoaNTIRPg==''),
       (''iv'', Str ''AQgPFh0kKzI5QEdOVVxjag==''), (''_id'', ObjectId 0)],
      [(''tenderId'', Str ''TENDER-001''), (''bidHash'', Str ''a1a1''),
       (''timestamp'', Str ''2024-05-01T10:00:00+00:00''), (''bidderId'', Str ''bidder-1''),
       (''status'', Str ''SEALED''), (''encryptedFileBase64'', Str ''GgUMCAYfEAkCe3x1bmdYUQ==''),
       (''iv'', Str ''AQgPFh0kKzI5QEdOVVxjag==''), (''_id'', ObjectId 1)],
      [(''tenderId'', Str ''TENDER-003''), (''bidHash'', Str ''c3c3''),
       (''timestamp'', Str ''2024-05-02T09:30:00.250000+00:00''), (''bidderId'', Str ''bidder-3''),
       (''status'', Str ''SEALED''), (''encryptedFileBase64'', Str ''DgUSOAB/bEMjIx13RkdeEw==''),
       (''iv'', Str ''AgUICw4RFBcaHSAjJikrLw==''), (''_id'', ObjectId 2)]]"

definition demo_world3 :: world where
  "demo_world3 =
     demo_world\<lparr>db := \<lparr>bids = demo_ledger, tender_updates = [], next_oid = 3,
                           reachable = True\<rparr>\<rparr>"

definition demo_world2 :: world where
  "demo_world2 = demo_world\<lparr>urandom := (\<lambda>i. of_nat (3 * i + 2))\<rparr>"

section \<open>Properties of padding, chaining and key derivation\<close>

lemma get_encryption_key_eq:
  "get_encryption_key env =
     (let material = (case env of Some v \<Rightarrow> v | None \<Rightarrow> DEV_FALLBACK_KEY)
      in if valid_utf8 material
         then Inr (ljust 32 0x30 (take 32 (encode_utf8 material)))
         else Inl (UnicodeEncodeError (encode_error_message material)))"
  by (simp add: get_encryption_key_def str_encode_def Let_def)

lemma length_get_encryption_key: "get_encryption_key env = Inr k \<Longrightarrow> length k = 32"
  by (auto simp add: get_encryption_key_eq ljust_def Let_def encode_utf8_def split: if_splits)

lemma length_pad_16: "length (pad d 16) mod 16 = 0"
  by (simp add: pad_def Let_def) presburger

lemma unpad_pad_16: "unpad (pad d 16) 16 = Inr d"
proof -
  define p where "p = 16 - length d mod 16"
  have p: "1 \<le> p" "p \<le> 16" by (simp_all add: p_def)
  have pd: "pad d 16 = d @ replicate p (of_nat p)" by (simp add: pad_def p_def Let_def)
  have l: "last (pad d 16) = of_nat p" using p by (simp add: pd)
  have u: "unat (of_nat p :: byte) = p" using p by (simp add: unat_of_nat)
  have m: "(length d + p) mod 16 = 0" unfolding p_def by presburger
  show ?thesis
    using p m u unfolding unpad_def l Let_def 
    by (simp add: pd)
qed

lemma xor_bytes_cancel: "length a = length b \<Longrightarrow> xor_bytes (xor_bytes a b) b = a"
proof (induction a arbitrary: b)
  case Nil then show ?case by (simp add: xor_bytes_def)
next
  case (Cons x xs)
  then obtain y ys where "b = y # ys" by (cases b) auto
  with Cons show ?case by (simp add: xor_bytes_def bit.xor_left_self ac_simps)
qed

lemma length_xor_bytes: "length (xor_bytes a b) = min (length a) (length b)"
  by (simp add: xor_bytes_def)

lemma cbc_chain_roundtrip:
  "\<forall>b. length b = 16 \<longrightarrow> length (e b) = 16 \<and> d (e b) = b \<Longrightarrow>
   length prev = 16 \<Longrightarrow> length data mod 16 = 0 \<Longrightarrow>
   cbc_chain_decrypt d prev (cbc_chain_encrypt e prev data) = data"
proof (induction e prev data rule: cbc_chain_encrypt.induct)
  case (1 e prev data)
  show ?case
  proof (cases "data = []")
    case True then show ?thesis by (simp add: cbc_chain_encrypt.simps cbc_chain_decrypt.simps)
  next
    case False
    with "1.prems" have len: "16 \<le> length data"
      by (cases "length data < 16") auto
    define b where "b = xor_bytes (take 16 data) prev"
    define c where "c = e b"
    have lb: "length b = 16" using len "1.prems" by (simp add: b_def length_xor_bytes)
    have lc: "length c = 16" and dc: "d c = b" using "1.prems"(1) lb by (simp_all add: c_def)
    have m: "(length data - 16) mod 16 = 0" using "1.prems"(3) len by presburger
    have rest: "cbc_chain_decrypt d c (cbc_chain_encrypt e c (drop 16 data)) = drop 16 data"
      using "1.IH"[OF False refl "1.prems"(1) lc[unfolded c_def b_def]] "1.prems" len unfolding c_def b_def
      by (simp add: m)
    have enc: "cbc_chain_encrypt e prev data = c @ cbc_chain_encrypt e c (drop 16 data)"
      using False by (subst cbc_chain_encrypt.simps) (simp add: Let_def c_def b_def)
    have "cbc_chain_decrypt d prev (c @ cbc_chain_encrypt e c (drop 16 data))
          = xor_bytes (d c) prev @ cbc_chain_decrypt d c (cbc_chain_encrypt e c (drop 16 data))"
      using lc by (subst cbc_chain_decrypt.simps) (auto simp add: Let_def)
    also have "xor_bytes (d c) prev = take 16 data"
      unfolding dc b_def using len "1.prems" by (intro xor_bytes_cancel) simp
    finally show ?thesis using rest enc by simp
  qed
qed

section \<open>Properties of the hexadecimal digest\<close>

lemma length_hexdigest: "length (hexdigest (w::'a::len word)) = LENGTH('a) div 4"
  by (simp add: hexdigest_def)

lemma nibble_less: "nibble w i < 16"
proof -
  have "take_bit 4 (unat (drop_bit (4 * i) w)) < 2 ^ 4"
    by (rule take_bit_nat_less_exp)
  then show ?thesis by (simp add: nibble_def unsigned_take_bit_eq)
qed

lemma hex_digit_inj: "i < 16 \<Longrightarrow> j < 16 \<Longrightarrow> hex_digits ! i = hex_digits ! j \<Longrightarrow> i = j"
proof -
  have d: "distinct hex_digits" by (simp add: hex_digits_def)
  have l: "length hex_digits = 16" by (simp add: hex_digits_def)
  show "i < 16 \<Longrightarrow> j < 16 \<Longrightarrow> hex_digits ! i = hex_digits ! j \<Longrightarrow> i = j"
    using d l by (simp add: nth_eq_iff_index_eq)
qed

lemma bit_nibble:
  "bit (w::'a::len word) n = bit (take_bit 4 (drop_bit (4 * (n div 4)) w)) (n mod 4)"
  by (simp add: bit_take_bit_iff bit_drop_bit_eq)

lemma hexdigest_inj:
  fixes w v :: "'a::len word"
  assumes dv: "4 dvd LENGTH('a)" and eq: "hexdigest w = hexdigest v"
  shows "w = v"
proof (rule bit_eqI)
  fix n
  assume "possible_bit TYPE('a word) n"
  then have n: "n < LENGTH('a)" by (simp add: possible_bit_word)
  with dv have i: "n div 4 < LENGTH('a) div 4"
    by (auto simp add: dvd_def)
  from eq have "\<forall>i \<in> set (rev [0..<LENGTH('a) div 4]). hex_digits ! nibble w i = hex_digits ! nibble v i"
    unfolding hexdigest_def by (simp only: map_eq_conv)
  with i have "hex_digits ! nibble w (n div 4) = hex_digits ! nibble v (n div 4)" by simp
  then have "nibble w (n div 4) = nibble v (n div 4)"
    by (rule hex_digit_inj [OF nibble_less nibble_less])
  then have "take_bit 4 (drop_bit (4 * (n div 4)) w) = take_bit 4 (drop_bit (4 * (n div 4)) v)"
    by (simp add: nibble_def word_unat_eq_iff)
  then show "bit w n = bit v n"
    by (simp add: bit_nibble [of w n] bit_nibble [of v n])
qed

section \<open>Encryption followed by decryption\<close>

lemma encrypt_file_content_eq:
  assumes "get_encryption_key env = Inr k"
  shows "encrypt_file_content E env p rnd =
     (Inr (cbc_chain_encrypt (E k) (map rnd [0..<16]) (pad p 16), map rnd [0..<16]),
      (\<lambda>i. rnd (i + 16)))"
  using length_pad_16 [of p] length_get_encryption_key [OF assms] assms
  by (simp add: encrypt_file_content_def get_random_bytes_def AES_new_CBC_def
      AES_block_size_def cbc_encrypt_def Let_def)

lemma encrypt_file_content_key_failure:
  "get_encryption_key env = Inl e \<Longrightarrow> encrypt_file_content E env p rnd = (Inl e, rnd)"
  by (simp add: encrypt_file_content_def)

lemma length_cbc_chain_encrypt:
  "\<forall>b. length b = 16 \<longrightarrow> length (e b) = 16 \<Longrightarrow> length prev = 16 \<Longrightarrow>
   length data mod 16 = 0 \<Longrightarrow> length (cbc_chain_encrypt e prev data) = length data"
proof (induction e prev data rule: cbc_chain_encrypt.induct)
  case (1 e prev data)
  show ?case
  proof (cases "data = []")
    case True
    then show ?thesis by (simp add: cbc_chain_encrypt.simps)
  next
    case False
    with "1.prems" have len: "16 \<le> length data"
      by (cases "length data < 16") auto
    have m: "(length data - 16) mod 16 = 0" using "1.prems"(3) len by presburger
    have lb: "length (xor_bytes (take 16 data) prev) = 16"
      using len "1.prems" by (simp add: length_xor_bytes)
    then have lc: "length (e (xor_bytes (take 16 data) prev)) = 16"
      using "1.prems"(1) by simp
    have "length (cbc_chain_encrypt e (e (xor_bytes (take 16 data) prev)) (drop 16 data))
          = length data - 16"
      using "1.IH" [OF False refl "1.prems"(1) lc] m by simp
    then show ?thesis
      using False lc len by (subst cbc_chain_encrypt.simps) (simp add: Let_def)
  qed
qed

lemma decrypt_encrypt:
  assumes "block_cipher_inverts E D" and key: "get_encryption_key env = Inr k"
  shows "decrypt_file_content D env
           (cbc_chain_encrypt (E k) (map rnd [0..<16]) (pad p 16))
           (map rnd [0..<16]) = Inr p"
proof -
  let ?k = "k"
  let ?iv = "map rnd [0..<16]"
  note lk = length_get_encryption_key [OF key]
  have inv: "\<forall>b. length b = 16 \<longrightarrow> length (E ?k b) = 16 \<and> D ?k (E ?k b) = b"
    using assms(1) by (simp add: block_cipher_inverts_def lk)
  then have len: "\<forall>b. length b = 16 \<longrightarrow> length (E ?k b) = 16" by simp
  have liv: "length ?iv = 16" by simp
  have lc: "length (cbc_chain_encrypt (E ?k) ?iv (pad p 16)) mod 16 = 0"
    using length_cbc_chain_encrypt [OF len liv length_pad_16] length_pad_16 [of p] by simp
  have rt: "cbc_chain_decrypt (D ?k) ?iv (cbc_chain_encrypt (E ?k) ?iv (pad p 16)) = pad p 16"
    by (rule cbc_chain_roundtrip [OF inv liv length_pad_16])
  show ?thesis
    using lc rt key lk
    by (simp add: decrypt_file_content_def AES_new_CBC_def
        AES_block_size_def cbc_decrypt_def unpad_pad_16)
qed

lemma demo_cipher_inverts: "block_cipher_inverts demo_E demo_D"
  by (simp add: block_cipher_inverts_def demo_E_def demo_D_def length_xor_bytes xor_bytes_cancel)


section \<open>The routes, case by case\<close>

lemma seal_bid_read_failure:
  "seal_bid E h (Inl e) tid w = (Inl (HTTPException 500 (''Failed to seal bid: '' @ str_exn e)), w)"
  by (simp add: seal_bid_def)

lemma seal_bid_key_failure:
  "get_encryption_key (ENCRYPTION_KEY w) = Inl e \<Longrightarrow>
   seal_bid E h (Inr p) tid w
     = (Inl (HTTPException 500 (''Failed to seal bid: '' @ str_exn e)), w)"
  by (simp add: seal_bid_def encrypt_file_content_key_failure)

lemma seal_bid_Inr:
  assumes "get_encryption_key (ENCRYPTION_KEY w) = Inr k"
  shows "seal_bid E h (Inr p) tid w =
     (let iv = map (urandom w) [0..<16];
          c = cbc_chain_encrypt (E k) iv (pad p 16);
          bidder = str_uuid (uuid4_int (map (\<lambda>i. urandom w (i + 16)) [0..<16]));
          w1 = w\<lparr>urandom := (\<lambda>i. urandom w (i + 16 + 16)), clock := (\<lambda>i. clock w (Suc i))\<rparr>
      in if reachable (db w)
         then (Inr \<lparr>success = True, bidHash = generate_sha3_512_hash h c,
                     message = ''Bid sealed successfully with AES-256 encryption'',
                     bidderId = bidder\<rparr>,
               w1\<lparr>db := (db w)\<lparr>bids := bids (db w) @
                       [[(''tenderId'', Str tid),
                         (''bidHash'', Str (generate_sha3_512_hash h c)),
                         (''timestamp'', Str (clock w 0)),
                         (''bidderId'', Str bidder),
                         (''status'', Str ''SEALED''),
                         (''encryptedFileBase64'', Str (b64encode c)),
                         (''iv'', Str (b64encode iv)),
                         (''_id'', ObjectId (next_oid (db w)))]],
                      next_oid := Suc (next_oid (db w))\<rparr>\<rparr>)
         else (Inl (HTTPException 500 (''Failed to seal bid: '' @ ''store unreachable'')), w1))"
  by (simp add: seal_bid_def encrypt_file_content_eq [OF assms] uuid4_str_def
      get_random_bytes_def insert_one_bids_def Let_def)

lemma seal_bid_success:
  assumes "seal_bid E h file tid w = (Inr r, s)"
  shows "\<exists>p k. file = Inr p \<and> get_encryption_key (ENCRYPTION_KEY w) = Inr k \<and> reachable (db w)"
proof (cases "file")
  case (Inl x)
  with assms show ?thesis by (simp add: seal_bid_read_failure)
next
  case (Inr p)
  show ?thesis
  proof (cases "get_encryption_key (ENCRYPTION_KEY w)")
    case (Inl x)
    with assms \<open>file = Inr p\<close> show ?thesis by (simp add: seal_bid_key_failure)
  next
    case k: (Inr k)
    with assms \<open>file = Inr p\<close> show ?thesis
      by (simp add: seal_bid_Inr [OF k] Let_def split: if_splits)
  qed
qed

lemma set_hexdigest: "set (hexdigest w) \<subseteq> set hex_digits"
proof -
  have "hex_digits ! nibble w i \<in> set hex_digits" for i
    using nibble_less [of w i] by (intro nth_mem) (simp add: hex_digits_def)
  then show ?thesis by (auto simp add: hexdigest_def)
qed

lemma generate_sha256_hash_eq:
  "generate_sha256_hash sha256 content =
     (if valid_utf8 content then Inr (hexdigest (sha256 (encode_utf8 content)))
      else Inl (UnicodeEncodeError (encode_error_message content)))"
  by (simp add: generate_sha256_hash_def str_encode_def)

lemma tender_update_encoding_failure:
  assumes "\<not> valid_utf8 (tenderId u @ '':'' @ updateContent u @ '':'' @ updatedBy u)"
  shows "tender_update sha256 u w =
     (Inl (HTTPException 500 (''Failed to log tender update: ''
        @ encode_error_message (tenderId u @ '':'' @ updateContent u @ '':'' @ updatedBy u))), w)"
  using assms by (simp add: tender_update_def generate_sha256_hash_eq Let_def)

lemma tender_update_eq:
  assumes "valid_utf8 (tenderId u @ '':'' @ updateContent u @ '':'' @ updatedBy u)"
  shows "tender_update sha256 u w =
     (let update_hash = hexdigest (sha256 (encode_utf8
                          (tenderId u @ '':'' @ updateContent u @ '':'' @ updatedBy u)));
          w1 = w\<lparr>clock := (\<lambda>i. clock w (Suc i))\<rparr>
      in if reachable (db w)
         then (Inr \<lparr>update_success = True, updateHash = update_hash,
                     update_timestamp = clock w 0\<rparr>,
               w1\<lparr>db := (db w)\<lparr>tender_updates := tender_updates (db w) @
                       [[(''tenderId'', Str (tenderId u)),
                         (''updateContent'', Str (updateContent u)),
                         (''updatedBy'', Str (updatedBy u)),
                         (''updateHash'', Str update_hash),
                         (''timestamp'', Str (clock w 0)),
                         (''_id'', ObjectId (next_oid (db w)))]],
                      next_oid := Suc (next_oid (db w))\<rparr>\<rparr>)
         else (Inl (HTTPException 500 (''Failed to log tender update: '' @ ''store unreachable'')),
               w1))"
  using assms
  by (simp add: tender_update_def generate_sha256_hash_eq insert_one_tender_updates_def Let_def)

lemma tender_update_hash:
  assumes "tender_update sha256 u w = (Inr r, s)"
  shows "valid_utf8 (tenderId u @ '':'' @ updateContent u @ '':'' @ updatedBy u)"
    and "updateHash r = hexdigest (sha256 (encode_utf8
                          (tenderId u @ '':'' @ updateContent u @ '':'' @ updatedBy u)))"
proof -
  show v: "valid_utf8 (tenderId u @ '':'' @ updateContent u @ '':'' @ updatedBy u)"
    using assms tender_update_encoding_failure [of u sha256 w] by auto
  from assms show "updateHash r = hexdigest (sha256 (encode_utf8
                          (tenderId u @ '':'' @ updateContent u @ '':'' @ updatedBy u)))"
    by (auto simp add: tender_update_eq [OF v] Let_def split: if_splits)
qed

lemma encode_utf8_inj: "encode_utf8 a = encode_utf8 b \<Longrightarrow> a = b"
proof -
  have u: "unat (of_char c :: byte) = of_char c" for c
  proof -
    have "(of_char c :: nat) < 256" by (rule nat_of_char_less_256)
    then have "unat (of_nat (of_char c) :: byte) = of_char c"
      by (simp add: unat_of_nat)
    then show ?thesis by (simp only: of_nat_of_char)
  qed
  have "inj (of_char :: char \<Rightarrow> byte)"
    by (rule inj_on_inverseI [of _ "\<lambda>b. char_of (unat b)"]) (simp add: u)
  then have "inj (map (of_char :: char \<Rightarrow> byte))" by simp
  then show "encode_utf8 a = encode_utf8 b \<Longrightarrow> a = b"
    by (simp add: encode_utf8_def inj_eq)
qed

section \<open>Chaining with two initialization vectors\<close>

lemma xor_bytes_commute: "xor_bytes a b = xor_bytes b a"
proof -
  have "map2 (XOR) a b = map2 (XOR) b a"
  proof (induction a arbitrary: b)
    case Nil then show ?case by simp
  next
    case (Cons x xs) then show ?case by (cases b) (simp_all add: ac_simps)
  qed
  then show ?thesis by (simp add: xor_bytes_def)
qed

lemma xor_bytes_left_cancel:
  assumes "length a = length b" "length a = length b'" "xor_bytes a b = xor_bytes a b'"
  shows "b = b'"
proof -
  have "b = xor_bytes (xor_bytes b a) a" using assms(1) by (simp add: xor_bytes_cancel)
  also have "\<dots> = xor_bytes (xor_bytes b' a) a" using assms(3) by (simp add: xor_bytes_commute)
  also have "\<dots> = b'" using assms(2) by (simp add: xor_bytes_cancel)
  finally show ?thesis .
qed

lemma cbc_chain_encrypt_iv_inj:
  assumes inv: "\<forall>b. length b = 16 \<longrightarrow> length (e b) = 16 \<and> d (e b) = b"
    and iv: "length iv = 16" "length iv' = 16"
    and data: "16 \<le> length data"
    and eq: "cbc_chain_encrypt e iv data = cbc_chain_encrypt e iv' data"
  shows "iv = iv'"
proof -
  let ?b = "xor_bytes (take 16 data) iv" and ?b' = "xor_bytes (take 16 data) iv'"
  have ne: "data \<noteq> []" using data by auto
  have lb: "length ?b = 16" "length ?b' = 16" using iv data by (simp_all add: length_xor_bytes)
  then have lc: "length (e ?b) = 16" "length (e ?b') = 16" using inv by simp_all
  have step: "cbc_chain_encrypt e prev data
              = e (xor_bytes (take 16 data) prev)
                @ cbc_chain_encrypt e (e (xor_bytes (take 16 data) prev)) (drop 16 data)" for prev
    using ne by (subst cbc_chain_encrypt.simps) (simp add: Let_def)
  have "e ?b @ cbc_chain_encrypt e (e ?b) (drop 16 data)
        = e ?b' @ cbc_chain_encrypt e (e ?b') (drop 16 data)"
    using eq by (simp only: step)
  with lc have "e ?b = e ?b'" by simp
  then have "d (e ?b) = d (e ?b')" by simp
  with inv lb have "?b = ?b'" by simp
  moreover have "length (take 16 data) = length iv" "length (take 16 data) = length iv'"
    using iv data by simp_all
  ultimately show ?thesis
    by (rule xor_bytes_left_cancel [of "take 16 data" iv iv', rotated 2])
qed

lemma length_pad_ge: "16 \<le> length (pad p 16)"
proof -
  have "length p mod 16 < 16" by simp
  then show ?thesis by (simp add: pad_def Let_def)
qed

section \<open>The development fallback key\<close>

lemma code_points_ascii:
  "list_all (\<lambda>c. (of_char c :: nat) < 0x80) s \<Longrightarrow> code_points s = map of_char s"
  by (induction s) (simp_all add: Let_def)

lemma valid_utf8_ascii: "list_all (\<lambda>c. (of_char c :: nat) < 0x80) s \<Longrightarrow> valid_utf8 s"
  by (auto simp add: valid_utf8_def code_points_ascii list_all_iff is_surrogate_def)

lemma fallback_key_bytes:
  "get_encryption_key None = Inr (encode_utf8 ''dev_aes_256_key_32_bytes_long_12'')"
  "get_encryption_key (Some ''dev_aes_256_key_32_bytes_long_12'')
     = Inr (encode_utf8 ''dev_aes_256_key_32_bytes_long_12'')"
  by (simp_all add: get_encryption_key_eq valid_utf8_ascii DEV_FALLBACK_KEY_def ljust_def
      encode_utf8_def)

section \<open>The audit log: validation, projection and order\<close>

lemma collect_Inr: "collect rs = Inr xs \<Longrightarrow> rs = map Inr xs"
proof (induction rs arbitrary: xs)
  case Nil
  then show ?case by simp
next
  case (Cons r rs)
  then show ?case by (cases r) (auto split: sum.splits)
qed

lemma collect_map_Inr:
  assumes "collect (map f ds) = Inr es"
  shows "length es = length ds" and "\<And>i. i < length ds \<Longrightarrow> f (ds ! i) = Inr (es ! i)"
proof -
  from collect_Inr [OF assms] have eq: "map f ds = map Inr es" .
  then have "length (map f ds) = length (map Inr es)" by simp
  then show len: "length es = length ds" by simp
  fix i assume i: "i < length ds"
  from eq have "map f ds ! i = map Inr es ! i" by simp
  with i len show "f (ds ! i) = Inr (es ! i)" by simp
qed

lemma doc_get_project: "k \<in> set fs \<Longrightarrow> doc_get (project fs d) k = doc_get d k"
  unfolding doc_get_def project_def by (induction d) auto

lemma doc_keys_project: "set (doc_keys (project fs d)) \<subseteq> set fs"
  by (auto simp add: doc_keys_def project_def)

lemma str_field_Inr:
  "str_field d k = Inr x \<Longrightarrow> \<exists>s. x = (k, Str s) \<and> doc_get d k = Some (Str s)"
  by (auto split: option.splits bson.splits)

lemma collect_str_fields:
  "collect (map (str_field d) ks) = Inr e \<Longrightarrow>
     map fst e = ks \<and> (\<forall>k \<in> set ks. \<exists>s. doc_get d k = Some (Str s) \<and> (k, Str s) \<in> set e)"
proof (induction ks arbitrary: e)
  case Nil
  then show ?case by simp
next
  case (Cons k ks)
  from Cons.prems obtain x xs where
    x: "str_field d k = Inr x" and xs: "collect (map (str_field d) ks) = Inr xs" and e: "e = x # xs"
    by (cases "str_field d k"; cases "collect (map (str_field d) ks)") (simp_all del: str_field.simps)
  from str_field_Inr [OF x] obtain s where s: "x = (k, Str s)" "doc_get d k = Some (Str s)" by blast
  from Cons.IH [OF xs] s e show ?case by auto
qed

lemma AuditLogEntry_Inr:
  assumes "AuditLogEntry d = Inr e"
  shows "doc_keys e = audit_fields"
    and "\<exists>t. doc_get d ''timestamp'' = Some (Str t) \<and> doc_get e ''timestamp'' = Some (Str t)"
proof -
  from collect_str_fields [OF assms [unfolded AuditLogEntry_def]]
  have keys: "map fst e = audit_fields"
    and vals: "\<forall>k \<in> set audit_fields. \<exists>s. doc_get d k = Some (Str s) \<and> (k, Str s) \<in> set e"
    by simp_all
  show "doc_keys e = audit_fields" by (simp add: doc_keys_def keys)
  have "distinct (map fst e)" by (simp add: keys audit_fields_def)
  moreover from vals obtain t where "doc_get d ''timestamp'' = Some (Str t)"
    and "(''timestamp'', Str t) \<in> set e"
    by (auto simp add: audit_fields_def)
  ultimately show "\<exists>t. doc_get d ''timestamp'' = Some (Str t) \<and> doc_get e ''timestamp'' = Some (Str t)"
    by (auto simp add: doc_get_def)
qed

lemma sorted_sort_descending:
  "sorted_wrt (\<lambda>a b. sort_rank (doc_get b field) \<le> sort_rank (doc_get a field))
     (sort_descending field ds)"
proof -
  have "sorted (map (\<lambda>d. sort_rank (doc_get d field)) (sort_key (\<lambda>d. sort_rank (doc_get d field)) ds))"
    by (rule sorted_sort_key)
  then show ?thesis
    by (simp add: sort_descending_def sorted_wrt_rev sorted_map)
qed

lemma get_audit_log_eq:
  "get_audit_log w =
     (if reachable (db w)
      then (Inr (take 1000 (map (project audit_fields) (sort_descending ''timestamp'' (bids (db w))))), w)
      else (Inl (HTTPException 500 ''Failed to fetch audit log: store unreachable''), w))"
  by (simp add: get_audit_log_def)

lemma sorted_get_audit_log:
  assumes "get_audit_log w = (Inr found, s)"
  shows "sorted_wrt (\<lambda>a b. sort_rank (doc_get b ''timestamp'') \<le> sort_rank (doc_get a ''timestamp''))
           found"
proof -
  let ?P = "\<lambda>a b. sort_rank (doc_get b ''timestamp'') \<le> sort_rank (doc_get a ''timestamp'')"
  have ts: "''timestamp'' \<in> set audit_fields" by (simp add: audit_fields_def)
  have "sorted_wrt ?P (sort_descending ''timestamp'' (bids (db w)))"
    by (rule sorted_sort_descending)
  then have "sorted_wrt ?P (map (project audit_fields) (sort_descending ''timestamp'' (bids (db w))))"
    by (simp add: sorted_wrt_map doc_get_project [OF ts])
  then have "sorted_wrt ?P (take 1000 (map (project audit_fields)
                (sort_descending ''timestamp'' (bids (db w)))))"
    by (rule sorted_wrt_take)
  with assms show ?thesis by (auto simp add: get_audit_log_eq split: if_splits)
qed

lemma audit_log_route_Inr:
  assumes "audit_log_route w = (Inr entries, s)"
  shows "\<exists>found. get_audit_log w = (Inr found, w) \<and> s = w
           \<and> collect (map AuditLogEntry found) = Inr entries"
  using assms
  by (auto simp add: audit_log_route_def get_audit_log_eq split: if_splits sum.splits)

lemma snd_get_audit_log: "snd (get_audit_log w) = w"
  by (simp add: get_audit_log_eq)

lemma snd_audit_log_route: "snd (audit_log_route w) = w"
  by (simp add: audit_log_route_def get_audit_log_eq split: sum.splits)

section \<open>The model on concrete inputs\<close>

lemma demo_iv: "map (urandom demo_world) [0..<16]
    = [1, 8, 15, 22, 29, 36, 43, 50, 57, 64, 71, 78, 85, 92, 99, 106]"
  by code_simp

lemma demo_ciphertext:
  "cbc_chain_encrypt (demo_E (encode_utf8 ''dev_aes_256_key_32_bytes_long_12''))
     [1, 8, 15, 22, 29, 36, 43, 50, 57, 64, 71, 78, 85, 92, 99, 106]
     (pad (encode_utf8 ''hello'') 16)
   = [13, 8, 21, 37, 19, 74, 83, 102, 0, 126, 122, 26, 53, 50, 17, 62]"
  by code_simp

lemma demo_digest:
  "hexdigest (demo_sha3_512 [13, 8, 21, 37, 19, 74, 83, 102, 0, 126, 122, 26, 53, 50, 17, 62])
   = ''0000000000000000000000000000000000000000000000000000000000000000000000000000000000000000000000000ee16fb9eeb2622fb662b879dce01d3d''"
  by code_simp

lemma demo_bidder:
  "str_uuid (uuid4_int (map (\<lambda>i. urandom demo_world (i + 16)) [0..<16]))
   = ''71787f86-8d94-4ba2-a9b0-b7bec5ccd3da''"
  by code_simp

lemma demo_world_simps:
  "ENCRYPTION_KEY demo_world = None"
  "db demo_world = \<lparr>bids = [], tender_updates = [], next_oid = 0, reachable = True\<rparr>"
  "log_records demo_world = []"
  "clock demo_world 0 = ''2024-05-01T10:00:00+00:00''"
  by (simp_all add: demo_world_def hex_digits_def)

lemma demo_key:
  "get_encryption_key (ENCRYPTION_KEY demo_world)
     = Inr (encode_utf8 ''dev_aes_256_key_32_bytes_long_12'')"
  "get_encryption_key (ENCRYPTION_KEY demo_world2)
     = Inr (encode_utf8 ''dev_aes_256_key_32_bytes_long_12'')"
  by (simp_all add: demo_world_def demo_world2_def fallback_key_bytes)

lemma demo_seal:
  "fst (seal_bid demo_E demo_sha3_512 (Inr (encode_utf8 ''hello'')) ''TENDER-001'' demo_world)
     = Inr \<lparr>success = True,
             bidHash = ''0000000000000000000000000000000000000000000000000000000000000000000000000000000000000000000000000ee16fb9eeb2622fb662b879dce01d3d'',
             message = ''Bid sealed successfully with AES-256 encryption'',
             bidderId = ''71787f86-8d94-4ba2-a9b0-b7bec5ccd3da''\<rparr>"
  by (simp add: seal_bid_Inr [OF demo_key(1)] Let_def demo_world_simps demo_iv demo_ciphertext
      generate_sha3_512_hash_def demo_digest demo_bidder)

lemma demo_world2_simps:
  "ENCRYPTION_KEY demo_world2 = None"
  "db demo_world2 = \<lparr>bids = [], tender_updates = [], next_oid = 0, reachable = True\<rparr>"
  "log_records demo_world2 = []"
  "clock demo_world2 0 = ''2024-05-01T10:00:00+00:00''"
  by (simp_all add: demo_world2_def demo_world_simps)

lemma demo_iv2: "map (urandom demo_world2) [0..<16] = ([2, 5, 8, 11, 14, 17, 20, 23, 26, 29, 32, 35, 38, 41, 44, 47] )"
  by code_simp

lemma demo_ciphertext2:
  "cbc_chain_encrypt (demo_E (encode_utf8 ''dev_aes_256_key_32_bytes_long_12'')) [2, 5, 8, 11, 14, 17, 20, 23, 26, 29, 32, 35, 38, 41, 44, 47] (pad (encode_utf8 ''hello'') 16)
   = [14, 5, 18, 56, 0, 127, 108, 67, 35, 35, 29, 119, 70, 71, 94, 123]"
  by code_simp

lemma demo_digest2: "hexdigest (demo_sha3_512 [14, 5, 18, 56, 0, 127, 108, 67, 35, 35, 29, 119, 70, 71, 94, 123]) = ''0000000000000000000000000000000000000000000000000000000000000000000000000000000000000000000000000fedac5ce7a48bb46597c23b137ee9db''"
  by code_simp

lemma demo_bidder2:
  "str_uuid (uuid4_int (map (\<lambda>i. urandom demo_world2 (i + 16)) [0..<16]))
   = ''3235383b-3e41-4447-8a4d-505356595c5f''"
  by code_simp

lemma demo_seal2:
  "fst (seal_bid demo_E demo_sha3_512 (Inr (encode_utf8 ''hello'')) ''TENDER-001'' demo_world2)
     = Inr \<lparr>success = True, bidHash = ''0000000000000000000000000000000000000000000000000000000000000000000000000000000000000000000000000fedac5ce7a48bb46597c23b137ee9db'', message = ''Bid sealed successfully with AES-256 encryption'', bidderId = ''3235383b-3e41-4447-8a4d-505356595c5f''\<rparr>"
  by (simp add: seal_bid_Inr [OF demo_key(2)] Let_def demo_world2_simps demo_iv2
      demo_ciphertext2 generate_sha3_512_hash_def demo_digest2 demo_bidder2)

lemma demo_no_collision: "\<not> hash_collision demo_sha3_512 [13, 8, 21, 37, 19, 74, 83, 102, 0, 126, 122, 26, 53, 50, 17, 62] [14, 5, 18, 56, 0, 127, 108, 67, 35, 35, 29, 119, 70, 71, 94, 123]"
proof -
  have "demo_sha3_512 [13, 8, 21, 37, 19, 74, 83, 102, 0, 126, 122, 26, 53, 50, 17, 62] \<noteq> demo_sha3_512 [14, 5, 18, 56, 0, 127, 108, 67, 35, 35, 29, 119, 70, 71, 94, 123]" by code_simp
  then show ?thesis by (simp add: hash_collision_def)
qed

lemma demo_update_digest_admin:
  "hexdigest (demo_sha256 (encode_utf8 ''TENDER-001:deadline extended:admin'')) = ''4063b064cb6fec3c9ff142192ff38008ee76bc55eeb30affcdf522d1746adac6''"
  by code_simp

lemma demo_update_digest_other:
  "hexdigest (demo_sha256 (encode_utf8 ''TENDER-001:deadline extended:other'')) = ''4063b064cb6fec3c9ff142192ff38008ee76bc55eeb30affcdf522dfbcea34df''"
  by code_simp

lemma demo_update_no_collision:
  "\<not> hash_collision demo_sha256 (encode_utf8 ''TENDER-001:deadline extended:admin'')
        (encode_utf8 ''TENDER-001:deadline extended:other'')"
proof -
  have "demo_sha256 (encode_utf8 ''TENDER-001:deadline extended:admin'')
          \<noteq> demo_sha256 (encode_utf8 ''TENDER-001:deadline extended:other'')"
    by code_simp
  then show ?thesis by (simp add: hash_collision_def)
qed

lemma demo_update_runs:
  "fst (tender_update demo_sha256 \<lparr>tenderId = ''TENDER-001'', updateContent = ''deadline extended'', updatedBy = ''admin''\<rparr> demo_world)
     = Inr \<lparr>update_success = True, updateHash = ''4063b064cb6fec3c9ff142192ff38008ee76bc55eeb30affcdf522d1746adac6'',
             update_timestamp = ''2024-05-01T10:00:00+00:00''\<rparr>"
  "fst (tender_update demo_sha256 \<lparr>tenderId = ''TENDER-001'', updateContent = ''deadline extended'', updatedBy = ''admin''\<rparr> demo_world3)
     = Inr \<lparr>update_success = True, updateHash = ''4063b064cb6fec3c9ff142192ff38008ee76bc55eeb30affcdf522d1746adac6'',
             update_timestamp = ''2024-05-01T10:00:00+00:00''\<rparr>"
  "fst (tender_update demo_sha256 \<lparr>tenderId = ''TENDER-001'', updateContent = ''deadline extended'', updatedBy = ''other''\<rparr> demo_world)
     = Inr \<lparr>update_success = True, updateHash = ''4063b064cb6fec3c9ff142192ff38008ee76bc55eeb30affcdf522dfbcea34df'',
             update_timestamp = ''2024-05-01T10:00:00+00:00''\<rparr>"
  by (simp_all add: tender_update_eq valid_utf8_ascii Let_def demo_world_simps demo_world3_def
      demo_update_digest_admin demo_update_digest_other)

lemma demo_update_digest_abcx:
  "hexdigest (demo_sha256 (encode_utf8 ''a:b:c:x'')) = ''00000000000000000000000000000000000000000000000000648e53c879b553''"
  by code_simp

lemma demo_audit_route:
  "fst (audit_log_route demo_world3)
     = Inr [[(''tenderId'', Str ''TENDER-003''), (''bidHash'', Str ''c3c3''),
             (''timestamp'', Str ''2024-05-02T09:30:00.250000+00:00''),
             (''bidderId'', Str ''bidder-3''), (''status'', Str ''SEALED'')],
            [(''tenderId'', Str ''TENDER-002''), (''bidHash'', Str ''b2b2''),
             (''timestamp'', Str ''2024-05-02T09:30:00+00:00''),
             (''bidderId'', Str ''bidder-2''), (''status'', Str ''SEALED'')],
            [(''tenderId'', Str ''TENDER-001''), (''bidHash'', Str ''a1a1''),
             (''timestamp'', Str ''2024-05-01T10:00:00+00:00''),
             (''bidderId'', Str ''bidder-1''), (''status'', Str ''SEALED'')]]"
  by code_simp

lemma demo_audit_run:
  "audit_log_route demo_world3 = (Inr [[(''tenderId'', Str ''TENDER-003''), (''bidHash'', Str ''c3c3''),
             (''timestamp'', Str ''2024-05-02T09:30:00.250000+00:00''),
             (''bidderId'', Str ''bidder-3''), (''status'', Str ''SEALED'')],
            [(''tenderId'', Str ''TENDER-002''), (''bidHash'', Str ''b2b2''),
             (''timestamp'', Str ''2024-05-02T09:30:00+00:00''),
             (''bidderId'', Str ''bidder-2''), (''status'', Str ''SEALED'')],
            [(''tenderId'', Str ''TENDER-001''), (''bidHash'', Str ''a1a1''),
             (''timestamp'', Str ''2024-05-01T10:00:00+00:00''),
             (''bidderId'', Str ''bidder-1''), (''status'', Str ''SEALED'')]], demo_world3)"
  using demo_audit_route snd_audit_log_route [of demo_world3] by (simp add: prod_eq_iff)

lemma demo_stored_payload:
  "b64encode [13, 8, 21, 37, 19, 74, 83, 102, 0, 126, 122, 26, 53, 50, 17, 62] = ''DQgVJRNKU2YAfnoaNTIRPg==''"
  "b64encode [1, 8, 15, 22, 29, 36, 43, 50, 57, 64, 71, 78, 85, 92, 99, 106] = ''AQgPFh0kKzI5QEdOVVxjag==''"
  by code_simp+

lemma demo_bad_key:
  "\<not> valid_utf8 [CHR 0xED, CHR 0xB3, CHR 0xBF]"
  "encode_error_message [CHR 0xED, CHR 0xB3, CHR 0xBF]
     = ([CHR 0x27] @ ''utf-8'' @ [CHR 0x27] @ '' codec can'' @ [CHR 0x27] @ ''t encode character '' @ [CHR 0x27, CHR 0x5C] @ ''udcff'' @ [CHR 0x27] @ '' in position 0: surrogates not allowed'')"
  "get_encryption_key (Some [CHR 0xED, CHR 0xB3, CHR 0xBF])
     = Inl (UnicodeEncodeError ([CHR 0x27] @ ''utf-8'' @ [CHR 0x27] @ '' codec can'' @ [CHR 0x27] @ ''t encode character '' @ [CHR 0x27, CHR 0x5C] @ ''udcff'' @ [CHR 0x27] @ '' in position 0: surrogates not allowed''))"
  by (simp_all add: get_encryption_key_eq valid_utf8_def encode_error_message_def
      in_range_def is_surrogate_def hex4_def hex_digits_def str_nat.simps [of 0])

section \<open>The claims\<close>

subsection \<open>C1\<close>

text \<open>
  C1. For every plaintext \<open>p\<close> and every tender identifier, when the process key resolves
  and the store is reachable, sealing succeeds and appends one record; that record holds, as
  Base64 text, the ciphertext and the initialization vector that \<open>encrypt_file_content\<close>
  returned for \<open>p\<close>, and decrypting that ciphertext with the process key and that vector
  (AES-256-CBC decryption, then unpadding) gives back exactly \<open>p\<close>. The block transformation
  is a parameter; what is asked of it is that its decryption direction inverts its
  encryption direction.
\<close>

theorem seal_round_trip:
  assumes inv: "block_cipher_inverts E D"
    and key: "get_encryption_key (ENCRYPTION_KEY w) = Inr k"
    and up: "reachable (db w)"
  shows "\<exists>r s c iv d.
           seal_bid E h (Inr p) tid w = (Inr r, s)
         \<and> bids (db s) = bids (db w) @ [d]
         \<and> doc_get d ''encryptedFileBase64'' = Some (Str (b64encode c))
         \<and> doc_get d ''iv'' = Some (Str (b64encode iv))
         \<and> fst (encrypt_file_content E (ENCRYPTION_KEY w) p (urandom w)) = Inr (c, iv)
         \<and> ENCRYPTION_KEY s = ENCRYPTION_KEY w
         \<and> decrypt_file_content D (ENCRYPTION_KEY s) c iv = Inr p"
  using up decrypt_encrypt [OF inv key, of "urandom w" p]
  by (simp add: seal_bid_Inr [OF key] encrypt_file_content_eq [OF key] Let_def doc_get_def)

theorem seal_round_trip_witness:
  "block_cipher_inverts demo_E demo_D
   \<and> get_encryption_key (ENCRYPTION_KEY demo_world) = Inr (encode_utf8 ''dev_aes_256_key_32_bytes_long_12'')
   \<and> reachable (db demo_world)
   \<and> (\<exists>s d. seal_bid demo_E demo_sha3_512 (Inr (encode_utf8 ''hello'')) ''TENDER-001'' demo_world
               = (Inr \<lparr>success = True, bidHash = ''0000000000000000000000000000000000000000000000000000000000000000000000000000000000000000000000000ee16fb9eeb2622fb662b879dce01d3d'', message = ''Bid sealed successfully with AES-256 encryption'', bidderId = ''71787f86-8d94-4ba2-a9b0-b7bec5ccd3da''\<rparr>, s)
            \<and> bids (db s) = [d]
            \<and> doc_get d ''encryptedFileBase64'' = Some (Str ''DQgVJRNKU2YAfnoaNTIRPg=='')
            \<and> doc_get d ''iv'' = Some (Str ''AQgPFh0kKzI5QEdOVVxjag==''))
   \<and> b64encode [13, 8, 21, 37, 19, 74, 83, 102, 0, 126, 122, 26, 53, 50, 17, 62] = ''DQgVJRNKU2YAfnoaNTIRPg==''
   \<and> b64encode [1, 8, 15, 22, 29, 36, 43, 50, 57, 64, 71, 78, 85, 92, 99, 106] = ''AQgPFh0kKzI5QEdOVVxjag==''
   \<and> decrypt_file_content demo_D None [13, 8, 21, 37, 19, 74, 83, 102, 0, 126, 122, 26, 53, 50, 17, 62] [1, 8, 15, 22, 29, 36, 43, 50, 57, 64, 71, 78, 85, 92, 99, 106] = Inr (encode_utf8 ''hello'')"
proof -
  let ?p = "encode_utf8 ''hello''"
  have up: "reachable (db demo_world)" by (simp add: demo_world_simps)
  have ev: "fst (encrypt_file_content demo_E (ENCRYPTION_KEY demo_world) ?p (urandom demo_world))
              = Inr ([13, 8, 21, 37, 19, 74, 83, 102, 0, 126, 122, 26, 53, 50, 17, 62], [1, 8, 15, 22, 29, 36, 43, 50, 57, 64, 71, 78, 85, 92, 99, 106])"
    by (simp add: encrypt_file_content_eq [OF demo_key(1)] demo_iv demo_ciphertext)
  from seal_round_trip [OF demo_cipher_inverts demo_key(1) up, of demo_sha3_512 ?p "''TENDER-001''"]
  obtain r s c iv d where
    run: "seal_bid demo_E demo_sha3_512 (Inr ?p) ''TENDER-001'' demo_world = (Inr r, s)"
    and b: "bids (db s) = bids (db demo_world) @ [d]"
    and pl: "doc_get d ''encryptedFileBase64'' = Some (Str (b64encode c))"
    and vec: "doc_get d ''iv'' = Some (Str (b64encode iv))"
    and enc: "fst (encrypt_file_content demo_E (ENCRYPTION_KEY demo_world) ?p (urandom demo_world))
                = Inr (c, iv)"
    and ks: "ENCRYPTION_KEY s = ENCRYPTION_KEY demo_world"
    and dec: "decrypt_file_content demo_D (ENCRYPTION_KEY s) c iv = Inr ?p"
    by blast
  from enc ev have c: "c = [13, 8, 21, 37, 19, 74, 83, 102, 0, 126, 122, 26, 53, 50, 17, 62]" and iv: "iv = [1, 8, 15, 22, 29, 36, 43, 50, 57, 64, 71, 78, 85, 92, 99, 106]" by simp_all
  from run demo_seal have r: "r = \<lparr>success = True, bidHash = ''0000000000000000000000000000000000000000000000000000000000000000000000000000000000000000000000000ee16fb9eeb2622fb662b879dce01d3d'', message = ''Bid sealed successfully with AES-256 encryption'', bidderId = ''71787f86-8d94-4ba2-a9b0-b7bec5ccd3da''\<rparr>" by simp
  from b have b': "bids (db s) = [d]" by (simp add: demo_world_simps)
  from dec ks have dec': "decrypt_file_content demo_D None c iv = Inr ?p"
    by (simp add: demo_world_simps)
  from run b' pl vec dec' show ?thesis
    unfolding c iv r demo_stored_payload
    using demo_cipher_inverts demo_key(1) up by blast
qed

subsection \<open>C2\<close>

text \<open>
  C2. Whenever sealing succeeds, the returned \<open>bidHash\<close> is the hexadecimal SHA3-512 digest
  of the encrypted payload (the ciphertext that \<open>encrypt_file_content\<close> returns for the
  uploaded bytes, not the uploaded bytes), it is 128 hexadecimal digits long, the
  initialization vector is 16 bytes long, and the stored record holds that same fingerprint
  next to the Base64 text of that ciphertext and of that vector.
\<close>

theorem seal_fingerprint:
  assumes "seal_bid E h file tid w = (Inr r, s)"
  shows "\<exists>p c iv d.
           file = Inr p
         \<and> fst (encrypt_file_content E (ENCRYPTION_KEY w) p (urandom w)) = Inr (c, iv)
         \<and> bidHash r = generate_sha3_512_hash h c
         \<and> bidHash r = hexdigest (h c)
         \<and> length (bidHash r) = 128
         \<and> set (bidHash r) \<subseteq> set hex_digits
         \<and> length iv = 16
         \<and> bids (db s) = bids (db w) @ [d]
         \<and> doc_get d ''bidHash'' = Some (Str (bidHash r))
         \<and> doc_get d ''encryptedFileBase64'' = Some (Str (b64encode c))
         \<and> doc_get d ''iv'' = Some (Str (b64encode iv))"
proof -
  from seal_bid_success [OF assms] obtain p k where
    f: "file = Inr p" and k: "get_encryption_key (ENCRYPTION_KEY w) = Inr k"
    and ok: "reachable (db w)"
    by blast
  from assms f ok show ?thesis
    by (auto simp add: seal_bid_Inr [OF k] Let_def encrypt_file_content_eq [OF k]
        generate_sha3_512_hash_def length_hexdigest doc_get_def set_hexdigest [THEN subsetD])
qed

theorem seal_fingerprint_witness:
  "seal_bid demo_E demo_sha3_512 (Inr (encode_utf8 ''hello'')) ''TENDER-001'' demo_world
     = (Inr \<lparr>success = True,
             bidHash = ''0000000000000000000000000000000000000000000000000000000000000000000000000000000000000000000000000ee16fb9eeb2622fb662b879dce01d3d'',
             message = ''Bid sealed successfully with AES-256 encryption'',
             bidderId = ''71787f86-8d94-4ba2-a9b0-b7bec5ccd3da''\<rparr>,
        snd (seal_bid demo_E demo_sha3_512 (Inr (encode_utf8 ''hello'')) ''TENDER-001'' demo_world))
   \<and> length ''0000000000000000000000000000000000000000000000000000000000000000000000000000000000000000000000000ee16fb9eeb2622fb662b879dce01d3d'' = 128
   \<and> (\<exists>c iv. fst (encrypt_file_content demo_E None (encode_utf8 ''hello'') (urandom demo_world)) = Inr (c, iv)
        \<and> ''0000000000000000000000000000000000000000000000000000000000000000000000000000000000000000000000000ee16fb9eeb2622fb662b879dce01d3d'' = hexdigest (demo_sha3_512 c)
        \<and> length iv = 16)"
proof -
  let ?run = "seal_bid demo_E demo_sha3_512 (Inr (encode_utf8 ''hello'')) ''TENDER-001'' demo_world"
  let ?r = "\<lparr>success = True,
             bidHash = ''0000000000000000000000000000000000000000000000000000000000000000000000000000000000000000000000000ee16fb9eeb2622fb662b879dce01d3d'',
             message = ''Bid sealed successfully with AES-256 encryption'',
             bidderId = ''71787f86-8d94-4ba2-a9b0-b7bec5ccd3da''\<rparr>"
  have "fst ?run = Inr ?r" by (rule demo_seal)
  then have run: "?run = (Inr ?r, snd ?run)" by (simp add: prod_eq_iff)
  have k: "ENCRYPTION_KEY demo_world = None" by (simp add: demo_world_def)
  from seal_fingerprint [OF run] run k show ?thesis by auto
qed

subsection \<open>C3\<close>

text \<open>
  C3. A successful \<open>tender_update\<close> returns as \<open>updateHash\<close> the hexadecimal SHA-256 digest
  of the UTF-8 bytes of \<open>tenderId + ":" + updateContent + ":" + updatedBy\<close>, in that order.
  Two calls with the same three fields return the same hash, whatever the clock and the
  store are; a call whose concatenated string is different returns a different hash, unless
  the two concatenated strings are a collision of SHA-256.
\<close>

theorem update_hash_deterministic:
  assumes run1: "tender_update sha256 u w1 = (Inr r1, s1)"
    and run2: "tender_update sha256 u w2 = (Inr r2, s2)"
    and run3: "tender_update sha256 u' w3 = (Inr r3, s3)"
    and diff: "tenderId u @ '':'' @ updateContent u @ '':'' @ updatedBy u
                 \<noteq> tenderId u' @ '':'' @ updateContent u' @ '':'' @ updatedBy u'"
    and nc: "\<not> hash_collision sha256
               (encode_utf8 (tenderId u @ '':'' @ updateContent u @ '':'' @ updatedBy u))
               (encode_utf8 (tenderId u' @ '':'' @ updateContent u' @ '':'' @ updatedBy u'))"
  shows "updateHash r1
           = hexdigest (sha256 (encode_utf8
               (tenderId u @ '':'' @ updateContent u @ '':'' @ updatedBy u)))
       \<and> updateHash r2 = updateHash r1
       \<and> updateHash r3 \<noteq> updateHash r1"
proof -
  let ?c = "tenderId u @ '':'' @ updateContent u @ '':'' @ updatedBy u"
  let ?c' = "tenderId u' @ '':'' @ updateContent u' @ '':'' @ updatedBy u'"
  have h1: "updateHash r1 = hexdigest (sha256 (encode_utf8 ?c))"
    by (rule tender_update_hash(2) [OF run1])
  have h2: "updateHash r2 = hexdigest (sha256 (encode_utf8 ?c))"
    by (rule tender_update_hash(2) [OF run2])
  have h3: "updateHash r3 = hexdigest (sha256 (encode_utf8 ?c'))"
    by (rule tender_update_hash(2) [OF run3])
  from diff have "encode_utf8 ?c \<noteq> encode_utf8 ?c'"
    using encode_utf8_inj by blast
  with nc have "sha256 (encode_utf8 ?c) \<noteq> sha256 (encode_utf8 ?c')"
    by (simp add: hash_collision_def)
  then have "hexdigest (sha256 (encode_utf8 ?c)) \<noteq> hexdigest (sha256 (encode_utf8 ?c'))"
    using hexdigest_inj [of "sha256 (encode_utf8 ?c)" "sha256 (encode_utf8 ?c')"] by auto
  with h1 h2 h3 show ?thesis by simp
qed

theorem update_hash_deterministic_witness:
  "fst (tender_update demo_sha256 \<lparr>tenderId = ''TENDER-001'', updateContent = ''deadline extended'', updatedBy = ''admin''\<rparr> demo_world)
     = Inr \<lparr>update_success = True, updateHash = ''4063b064cb6fec3c9ff142192ff38008ee76bc55eeb30affcdf522d1746adac6'',
             update_timestamp = ''2024-05-01T10:00:00+00:00''\<rparr>
   \<and> fst (tender_update demo_sha256 \<lparr>tenderId = ''TENDER-001'', updateContent = ''deadline extended'', updatedBy = ''admin''\<rparr> demo_world3)
     = Inr \<lparr>update_success = True, updateHash = ''4063b064cb6fec3c9ff142192ff38008ee76bc55eeb30affcdf522d1746adac6'',
             update_timestamp = ''2024-05-01T10:00:00+00:00''\<rparr>
   \<and> fst (tender_update demo_sha256 \<lparr>tenderId = ''TENDER-001'', updateContent = ''deadline extended'', updatedBy = ''other''\<rparr> demo_world)
     = Inr \<lparr>update_success = True, updateHash = ''4063b064cb6fec3c9ff142192ff38008ee76bc55eeb30affcdf522dfbcea34df'',
             update_timestamp = ''2024-05-01T10:00:00+00:00''\<rparr>
   \<and> ''TENDER-001:deadline extended:admin'' \<noteq> ''TENDER-001:deadline extended:other''
   \<and> \<not> hash_collision demo_sha256 (encode_utf8 ''TENDER-001:deadline extended:admin'')
        (encode_utf8 ''TENDER-001:deadline extended:other'')
   \<and> ''4063b064cb6fec3c9ff142192ff38008ee76bc55eeb30affcdf522d1746adac6'' = hexdigest (demo_sha256 (encode_utf8 ''TENDER-001:deadline extended:admin''))
   \<and> ''4063b064cb6fec3c9ff142192ff38008ee76bc55eeb30affcdf522dfbcea34df'' \<noteq> ''4063b064cb6fec3c9ff142192ff38008ee76bc55eeb30affcdf522d1746adac6''"
proof -
  let ?r1 = "\<lparr>update_success = True, updateHash = ''4063b064cb6fec3c9ff142192ff38008ee76bc55eeb30affcdf522d1746adac6'',
             update_timestamp = ''2024-05-01T10:00:00+00:00''\<rparr>"
  let ?r3 = "\<lparr>update_success = True, updateHash = ''4063b064cb6fec3c9ff142192ff38008ee76bc55eeb30affcdf522dfbcea34df'',
             update_timestamp = ''2024-05-01T10:00:00+00:00''\<rparr>"
  have run1: "tender_update demo_sha256 \<lparr>tenderId = ''TENDER-001'', updateContent = ''deadline extended'', updatedBy = ''admin''\<rparr> demo_world
                = (Inr ?r1, snd (tender_update demo_sha256 \<lparr>tenderId = ''TENDER-001'', updateContent = ''deadline extended'', updatedBy = ''admin''\<rparr> demo_world))"
    using demo_update_runs(1) by (simp add: prod_eq_iff)
  have run2: "tender_update demo_sha256 \<lparr>tenderId = ''TENDER-001'', updateContent = ''deadline extended'', updatedBy = ''admin''\<rparr> demo_world3
                = (Inr ?r1, snd (tender_update demo_sha256 \<lparr>tenderId = ''TENDER-001'', updateContent = ''deadline extended'', updatedBy = ''admin''\<rparr> demo_world3))"
    using demo_update_runs(2) by (simp add: prod_eq_iff)
  have run3: "tender_update demo_sha256 \<lparr>tenderId = ''TENDER-001'', updateContent = ''deadline extended'', updatedBy = ''other''\<rparr> demo_world
                = (Inr ?r3, snd (tender_update demo_sha256 \<lparr>tenderId = ''TENDER-001'', updateContent = ''deadline extended'', updatedBy = ''other''\<rparr> demo_world))"
    using demo_update_runs(3) by (simp add: prod_eq_iff)
  have diff: "tenderId \<lparr>tenderId = ''TENDER-001'', updateContent = ''deadline extended'', updatedBy = ''admin''\<rparr> @ '':'' @ updateContent \<lparr>tenderId = ''TENDER-001'', updateContent = ''deadline extended'', updatedBy = ''admin''\<rparr> @ '':'' @ updatedBy \<lparr>tenderId = ''TENDER-001'', updateContent = ''deadline extended'', updatedBy = ''admin''\<rparr>
                \<noteq> tenderId \<lparr>tenderId = ''TENDER-001'', updateContent = ''deadline extended'', updatedBy = ''other''\<rparr> @ '':'' @ updateContent \<lparr>tenderId = ''TENDER-001'', updateContent = ''deadline extended'', updatedBy = ''other''\<rparr> @ '':'' @ updatedBy \<lparr>tenderId = ''TENDER-001'', updateContent = ''deadline extended'', updatedBy = ''other''\<rparr>"
    by simp
  have nc: "\<not> hash_collision demo_sha256
               (encode_utf8 (tenderId \<lparr>tenderId = ''TENDER-001'', updateContent = ''deadline extended'', updatedBy = ''admin''\<rparr> @ '':'' @ updateContent \<lparr>tenderId = ''TENDER-001'', updateContent = ''deadline extended'', updatedBy = ''admin''\<rparr> @ '':'' @ updatedBy \<lparr>tenderId = ''TENDER-001'', updateContent = ''deadline extended'', updatedBy = ''admin''\<rparr>))
               (encode_utf8 (tenderId \<lparr>tenderId = ''TENDER-001'', updateContent = ''deadline extended'', updatedBy = ''other''\<rparr> @ '':'' @ updateContent \<lparr>tenderId = ''TENDER-001'', updateContent = ''deadline extended'', updatedBy = ''other''\<rparr> @ '':'' @ updatedBy \<lparr>tenderId = ''TENDER-001'', updateContent = ''deadline extended'', updatedBy = ''other''\<rparr>))"
    using demo_update_no_collision by simp
  from update_hash_deterministic [OF run1 run2 run3 diff nc]
  have hne: "''4063b064cb6fec3c9ff142192ff38008ee76bc55eeb30affcdf522dfbcea34df'' \<noteq> ''4063b064cb6fec3c9ff142192ff38008ee76bc55eeb30affcdf522d1746adac6''"
    by (simp add: demo_update_digest_admin)
  have hd: "''4063b064cb6fec3c9ff142192ff38008ee76bc55eeb30affcdf522d1746adac6'' = hexdigest (demo_sha256 (encode_utf8 ''TENDER-001:deadline extended:admin''))"
    by (simp only: demo_update_digest_admin)
  have sne: "''TENDER-001:deadline extended:admin'' \<noteq> ''TENDER-001:deadline extended:other''"
    by simp
  from demo_update_runs demo_update_no_collision hne hd sne show ?thesis by blast
qed

subsection \<open>C4\<close>

text \<open>
  C4. Every entry of a successful audit-log response has exactly the fields \<open>tenderId\<close>,
  \<open>bidHash\<close>, \<open>timestamp\<close>, \<open>bidderId\<close>, \<open>status\<close>, and neither \<open>encryptedFileBase64\<close>
  nor \<open>iv\<close>; already the documents that the body of the route returns, before the response
  model is applied, have no field outside those five, whatever the stored records are.
\<close>

theorem audit_entries_fields:
  assumes "audit_log_route w = (Inr entries, s)"
  shows "(\<forall>e \<in> set entries.
            doc_keys e = [''tenderId'', ''bidHash'', ''timestamp'', ''bidderId'', ''status'']
          \<and> ''encryptedFileBase64'' \<notin> set (doc_keys e)
          \<and> ''iv'' \<notin> set (doc_keys e))
       \<and> (\<exists>found. get_audit_log w = (Inr found, w)
            \<and> (\<forall>d \<in> set found.
                   set (doc_keys d)
                     \<subseteq> {''tenderId'', ''bidHash'', ''timestamp'', ''bidderId'', ''status''}
                 \<and> ''encryptedFileBase64'' \<notin> set (doc_keys d)
                 \<and> ''iv'' \<notin> set (doc_keys d)))"
proof -
  from audit_log_route_Inr [OF assms] obtain found where
    g: "get_audit_log w = (Inr found, w)" and c: "collect (map AuditLogEntry found) = Inr entries"
    by blast
  have 1: "doc_keys e = [''tenderId'', ''bidHash'', ''timestamp'', ''bidderId'', ''status'']"
    if "e \<in> set entries" for e
  proof -
    from that obtain i where i: "i < length entries" "e = entries ! i"
      by (auto simp add: in_set_conv_nth)
    with collect_map_Inr [OF c] have "AuditLogEntry (found ! i) = Inr e" by simp
    from AuditLogEntry_Inr(1) [OF this] show ?thesis by (simp add: audit_fields_def)
  qed
  have 2: "set (doc_keys d) \<subseteq> {''tenderId'', ''bidHash'', ''timestamp'', ''bidderId'', ''status''}"
    if "d \<in> set found" for d
  proof -
    from g have "found = take 1000 (map (project audit_fields)
                   (sort_descending ''timestamp'' (bids (db w))))"
      by (auto simp add: get_audit_log_eq split: if_splits)
    with that have "d \<in> set (map (project audit_fields) (sort_descending ''timestamp'' (bids (db w))))"
      by (auto dest: in_set_takeD)
    then obtain d0 where "d = project audit_fields d0" by auto
    then show ?thesis using doc_keys_project [of audit_fields d0] by (simp add: audit_fields_def)
  qed
  from 1 have "\<forall>e \<in> set entries.
            doc_keys e = [''tenderId'', ''bidHash'', ''timestamp'', ''bidderId'', ''status'']
          \<and> ''encryptedFileBase64'' \<notin> set (doc_keys e)
          \<and> ''iv'' \<notin> set (doc_keys e)"
    by simp
  moreover from 2 have "\<forall>d \<in> set found.
                   set (doc_keys d)
                     \<subseteq> {''tenderId'', ''bidHash'', ''timestamp'', ''bidderId'', ''status''}
                 \<and> ''encryptedFileBase64'' \<notin> set (doc_keys d)
                 \<and> ''iv'' \<notin> set (doc_keys d)"
    by auto
  ultimately show ?thesis using g by blast
qed

theorem audit_entries_fields_witness:
  "audit_log_route demo_world3 = (Inr [[(''tenderId'', Str ''TENDER-003''), (''bidHash'', Str ''c3c3''),
             (''timestamp'', Str ''2024-05-02T09:30:00.250000+00:00''),
             (''bidderId'', Str ''bidder-3''), (''status'', Str ''SEALED'')],
            [(''tenderId'', Str ''TENDER-002''), (''bidHash'', Str ''b2b2''),
             (''timestamp'', Str ''2024-05-02T09:30:00+00:00''),
             (''bidderId'', Str ''bidder-2''), (''status'', Str ''SEALED'')],
            [(''tenderId'', Str ''TENDER-001''), (''bidHash'', Str ''a1a1''),
             (''timestamp'', Str ''2024-05-01T10:00:00+00:00''),
             (''bidderId'', Str ''bidder-1''), (''status'', Str ''SEALED'')]], demo_world3)
   \<and> map doc_keys [[(''tenderId'', Str ''TENDER-003''), (''bidHash'', Str ''c3c3''),
             (''timestamp'', Str ''2024-05-02T09:30:00.250000+00:00''),
             (''bidderId'', Str ''bidder-3''), (''status'', Str ''SEALED'')],
            [(''tenderId'', Str ''TENDER-002''), (''bidHash'', Str ''b2b2''),
             (''timestamp'', Str ''2024-05-02T09:30:00+00:00''),
             (''bidderId'', Str ''bidder-2''), (''status'', Str ''SEALED'')],
            [(''tenderId'', Str ''TENDER-001''), (''bidHash'', Str ''a1a1''),
             (''timestamp'', Str ''2024-05-01T10:00:00+00:00''),
             (''bidderId'', Str ''bidder-1''), (''status'', Str ''SEALED'')]]
       = [[''tenderId'', ''bidHash'', ''timestamp'', ''bidderId'', ''status''],
          [''tenderId'', ''bidHash'', ''timestamp'', ''bidderId'', ''status''],
          [''tenderId'', ''bidHash'', ''timestamp'', ''bidderId'', ''status'']]
   \<and> list_all (\<lambda>e. ''encryptedFileBase64'' \<notin> set (doc_keys e) \<and> ''iv'' \<notin> set (doc_keys e))
        [[(''tenderId'', Str ''TENDER-003''), (''bidHash'', Str ''c3c3''),
             (''timestamp'', Str ''2024-05-02T09:30:00.250000+00:00''),
             (''bidderId'', Str ''bidder-3''), (''status'', Str ''SEALED'')],
            [(''tenderId'', Str ''TENDER-002''), (''bidHash'', Str ''b2b2''),
             (''timestamp'', Str ''2024-05-02T09:30:00+00:00''),
             (''bidderId'', Str ''bidder-2''), (''status'', Str ''SEALED'')],
            [(''tenderId'', Str ''TENDER-001''), (''bidHash'', Str ''a1a1''),
             (''timestamp'', Str ''2024-05-01T10:00:00+00:00''),
             (''bidderId'', Str ''bidder-1''), (''status'', Str ''SEALED'')]]
   \<and> map doc_keys (bids (db demo_world3))
       = [[''tenderId'', ''bidHash'', ''timestamp'', ''bidderId'', ''status'',
           ''encryptedFileBase64'', ''iv'', ''_id''],
          [''tenderId'', ''bidHash'', ''timestamp'', ''bidderId'', ''status'',
           ''encryptedFileBase64'', ''iv'', ''_id''],
          [''tenderId'', ''bidHash'', ''timestamp'', ''bidderId'', ''status'',
           ''encryptedFileBase64'', ''iv'', ''_id'']]"
proof -
  have stored: "map doc_keys (bids (db demo_world3))
       = [[''tenderId'', ''bidHash'', ''timestamp'', ''bidderId'', ''status'',
           ''encryptedFileBase64'', ''iv'', ''_id''],
          [''tenderId'', ''bidHash'', ''timestamp'', ''bidderId'', ''status'',
           ''encryptedFileBase64'', ''iv'', ''_id''],
          [''tenderId'', ''bidHash'', ''timestamp'', ''bidderId'', ''status'',
           ''encryptedFileBase64'', ''iv'', ''_id'']]"
    by (simp add: demo_world3_def demo_ledger_def doc_keys_def)
  from audit_entries_fields [OF demo_audit_run]
  have "\<forall>e \<in> set [[(''tenderId'', Str ''TENDER-003''), (''bidHash'', Str ''c3c3''),
             (''timestamp'', Str ''2024-05-02T09:30:00.250000+00:00''),
             (''bidderId'', Str ''bidder-3''), (''status'', Str ''SEALED'')],
            [(''tenderId'', Str ''TENDER-002''), (''bidHash'', Str ''b2b2''),
             (''timestamp'', Str ''2024-05-02T09:30:00+00:00''),
             (''bidderId'', Str ''bidder-2''), (''status'', Str ''SEALED'')],
            [(''tenderId'', Str ''TENDER-001''), (''bidHash'', Str ''a1a1''),
             (''timestamp'', Str ''2024-05-01T10:00:00+00:00''),
             (''bidderId'', Str ''bidder-1''), (''status'', Str ''SEALED'')]].
          doc_keys e = [''tenderId'', ''bidHash'', ''timestamp'', ''bidderId'', ''status'']
        \<and> ''encryptedFileBase64'' \<notin> set (doc_keys e)
        \<and> ''iv'' \<notin> set (doc_keys e)"
    by blast
  then have "map doc_keys [[(''tenderId'', Str ''TENDER-003''), (''bidHash'', Str ''c3c3''),
             (''timestamp'', Str ''2024-05-02T09:30:00.250000+00:00''),
             (''bidderId'', Str ''bidder-3''), (''status'', Str ''SEALED'')],
            [(''tenderId'', Str ''TENDER-002''), (''bidHash'', Str ''b2b2''),
             (''timestamp'', Str ''2024-05-02T09:30:00+00:00''),
             (''bidderId'', Str ''bidder-2''), (''status'', Str ''SEALED'')],
            [(''tenderId'', Str ''TENDER-001''), (''bidHash'', Str ''a1a1''),
             (''timestamp'', Str ''2024-05-01T10:00:00+00:00''),
             (''bidderId'', Str ''bidder-1''), (''status'', Str ''SEALED'')]]
       = [[''tenderId'', ''bidHash'', ''timestamp'', ''bidderId'', ''status''],
          [''tenderId'', ''bidHash'', ''timestamp'', ''bidderId'', ''status''],
          [''tenderId'', ''bidHash'', ''timestamp'', ''bidderId'', ''status'']]"
    and "list_all (\<lambda>e. ''encryptedFileBase64'' \<notin> set (doc_keys e) \<and> ''iv'' \<notin> set (doc_keys e))
        [[(''tenderId'', Str ''TENDER-003''), (''bidHash'', Str ''c3c3''),
             (''timestamp'', Str ''2024-05-02T09:30:00.250000+00:00''),
             (''bidderId'', Str ''bidder-3''), (''status'', Str ''SEALED'')],
            [(''tenderId'', Str ''TENDER-002''), (''bidHash'', Str ''b2b2''),
             (''timestamp'', Str ''2024-05-02T09:30:00+00:00''),
             (''bidderId'', Str ''bidder-2''), (''status'', Str ''SEALED'')],
            [(''tenderId'', Str ''TENDER-001''), (''bidHash'', Str ''a1a1''),
             (''timestamp'', Str ''2024-05-01T10:00:00+00:00''),
             (''bidderId'', Str ''bidder-1''), (''status'', Str ''SEALED'')]]"
    by simp_all
  with demo_audit_run stored show ?thesis by blast
qed

subsection \<open>C5\<close>

text \<open>
  C5. For every content of the store, in whatever order the records were appended, a
  successful audit-log response lists its entries by non-increasing \<open>timestamp\<close>, has at
  most 1000 entries (all of them when the store holds fewer), and leaves the process state,
  the store included, as it was.
\<close>

theorem audit_log_descending:
  assumes "audit_log_route w = (Inr entries, s)"
  shows "sorted_wrt (\<lambda>a b. timestamp_of b \<le> timestamp_of a) entries
       \<and> length entries \<le> 1000
       \<and> length entries = min 1000 (length (bids (db w)))
       \<and> s = w
       \<and> (\<exists>found. get_audit_log w = (Inr found, w)
            \<and> sorted_wrt (\<lambda>a b. sort_rank (doc_get b ''timestamp'')
                                   \<le> sort_rank (doc_get a ''timestamp'')) found)"
proof -
  from audit_log_route_Inr [OF assms] obtain found where
    g: "get_audit_log w = (Inr found, w)" and s: "s = w"
    and c: "collect (map AuditLogEntry found) = Inr entries"
    by blast
  note cm = collect_map_Inr [OF c]
  have so: "sorted_wrt (\<lambda>a b. sort_rank (doc_get b ''timestamp'')
                                \<le> sort_rank (doc_get a ''timestamp'')) found"
    by (rule sorted_get_audit_log [OF g])
  have ts: "\<exists>t. doc_get (found ! i) ''timestamp'' = Some (Str t) \<and> timestamp_of (entries ! i) = t"
    if "i < length entries" for i
  proof -
    from that cm have "AuditLogEntry (found ! i) = Inr (entries ! i)" by simp
    from AuditLogEntry_Inr(2) [OF this] show ?thesis by (auto simp add: timestamp_of_def)
  qed
  have "timestamp_of (entries ! j) \<le> timestamp_of (entries ! i)"
    if "i < j" "j < length entries" for i j
  proof -
    from that ts [of i] ts [of j] obtain ti tj where
      ti: "doc_get (found ! i) ''timestamp'' = Some (Str ti)" "timestamp_of (entries ! i) = ti" and
      tj: "doc_get (found ! j) ''timestamp'' = Some (Str tj)" "timestamp_of (entries ! j) = tj"
      by auto
    from so that cm(1)
    have "sort_rank (doc_get (found ! j) ''timestamp'') \<le> sort_rank (doc_get (found ! i) ''timestamp'')"
      by (simp add: sorted_wrt_iff_nth_less)
    with ti tj show ?thesis by (auto simp add: less_imp_le)
  qed
  then have sorted: "sorted_wrt (\<lambda>a b. timestamp_of b \<le> timestamp_of a) entries"
    by (simp add: sorted_wrt_iff_nth_less)
  from g have "found = take 1000 (map (project audit_fields)
                   (sort_descending ''timestamp'' (bids (db w))))"
    by (auto simp add: get_audit_log_eq split: if_splits)
  then have "length found = min 1000 (length (bids (db w)))"
    by (simp add: sort_descending_def min.commute)
  with cm(1) have len: "length entries = min 1000 (length (bids (db w)))" by simp
  from sorted len s g so show ?thesis by auto
qed

theorem audit_log_descending_witness:
  "audit_log_route demo_world3 = (Inr [[(''tenderId'', Str ''TENDER-003''), (''bidHash'', Str ''c3c3''),
             (''timestamp'', Str ''2024-05-02T09:30:00.250000+00:00''),
             (''bidderId'', Str ''bidder-3''), (''status'', Str ''SEALED'')],
            [(''tenderId'', Str ''TENDER-002''), (''bidHash'', Str ''b2b2''),
             (''timestamp'', Str ''2024-05-02T09:30:00+00:00''),
             (''bidderId'', Str ''bidder-2''), (''status'', Str ''SEALED'')],
            [(''tenderId'', Str ''TENDER-001''), (''bidHash'', Str ''a1a1''),
             (''timestamp'', Str ''2024-05-01T10:00:00+00:00''),
             (''bidderId'', Str ''bidder-1''), (''status'', Str ''SEALED'')]], demo_world3)
   \<and> map timestamp_of (bids (db demo_world3))
       = [''2024-05-02T09:30:00+00:00'', ''2024-05-01T10:00:00+00:00'',
          ''2024-05-02T09:30:00.250000+00:00'']
   \<and> map timestamp_of [[(''tenderId'', Str ''TENDER-003''), (''bidHash'', Str ''c3c3''),
             (''timestamp'', Str ''2024-05-02T09:30:00.250000+00:00''),
             (''bidderId'', Str ''bidder-3''), (''status'', Str ''SEALED'')],
            [(''tenderId'', Str ''TENDER-002''), (''bidHash'', Str ''b2b2''),
             (''timestamp'', Str ''2024-05-02T09:30:00+00:00''),
             (''bidderId'', Str ''bidder-2''), (''status'', Str ''SEALED'')],
            [(''tenderId'', Str ''TENDER-001''), (''bidHash'', Str ''a1a1''),
             (''timestamp'', Str ''2024-05-01T10:00:00+00:00''),
             (''bidderId'', Str ''bidder-1''), (''status'', Str ''SEALED'')]]
       = [''2024-05-02T09:30:00.250000+00:00'', ''2024-05-02T09:30:00+00:00'',
          ''2024-05-01T10:00:00+00:00'']
   \<and> sorted_wrt (\<lambda>a b. timestamp_of b \<le> timestamp_of a) [[(''tenderId'', Str ''TENDER-003''), (''bidHash'', Str ''c3c3''),
             (''timestamp'', Str ''2024-05-02T09:30:00.250000+00:00''),
             (''bidderId'', Str ''bidder-3''), (''status'', Str ''SEALED'')],
            [(''tenderId'', Str ''TENDER-002''), (''bidHash'', Str ''b2b2''),
             (''timestamp'', Str ''2024-05-02T09:30:00+00:00''),
             (''bidderId'', Str ''bidder-2''), (''status'', Str ''SEALED'')],
            [(''tenderId'', Str ''TENDER-001''), (''bidHash'', Str ''a1a1''),
             (''timestamp'', Str ''2024-05-01T10:00:00+00:00''),
             (''bidderId'', Str ''bidder-1''), (''status'', Str ''SEALED'')]]
   \<and> length [[(''tenderId'', Str ''TENDER-003''), (''bidHash'', Str ''c3c3''),
             (''timestamp'', Str ''2024-05-02T09:30:00.250000+00:00''),
             (''bidderId'', Str ''bidder-3''), (''status'', Str ''SEALED'')],
            [(''tenderId'', Str ''TENDER-002''), (''bidHash'', Str ''b2b2''),
             (''timestamp'', Str ''2024-05-02T09:30:00+00:00''),
             (''bidderId'', Str ''bidder-2''), (''status'', Str ''SEALED'')],
            [(''tenderId'', Str ''TENDER-001''), (''bidHash'', Str ''a1a1''),
             (''timestamp'', Str ''2024-05-01T10:00:00+00:00''),
             (''bidderId'', Str ''bidder-1''), (''status'', Str ''SEALED'')]] \<le> 1000"
proof -
  have stored: "map timestamp_of (bids (db demo_world3))
       = [''2024-05-02T09:30:00+00:00'', ''2024-05-01T10:00:00+00:00'',
          ''2024-05-02T09:30:00.250000+00:00'']"
    by (simp add: demo_world3_def demo_ledger_def timestamp_of_def doc_get_def)
  have returned: "map timestamp_of [[(''tenderId'', Str ''TENDER-003''), (''bidHash'', Str ''c3c3''),
             (''timestamp'', Str ''2024-05-02T09:30:00.250000+00:00''),
             (''bidderId'', Str ''bidder-3''), (''status'', Str ''SEALED'')],
            [(''tenderId'', Str ''TENDER-002''), (''bidHash'', Str ''b2b2''),
             (''timestamp'', Str ''2024-05-02T09:30:00+00:00''),
             (''bidderId'', Str ''bidder-2''), (''status'', Str ''SEALED'')],
            [(''tenderId'', Str ''TENDER-001''), (''bidHash'', Str ''a1a1''),
             (''timestamp'', Str ''2024-05-01T10:00:00+00:00''),
             (''bidderId'', Str ''bidder-1''), (''status'', Str ''SEALED'')]]
       = [''2024-05-02T09:30:00.250000+00:00'', ''2024-05-02T09:30:00+00:00'',
          ''2024-05-01T10:00:00+00:00'']"
    by (simp add: timestamp_of_def doc_get_def)
  from audit_log_descending [OF demo_audit_run] demo_audit_run stored returned
  show ?thesis by blast
qed

subsection \<open>C6\<close>




subsection \<open>C7\<close>

text \<open>
  C7, as amended. When no key secret is configured and the store is reachable, sealing
  succeeds with the first 32 bytes of the development fallback as the key; the response
  carries the same message as always, nothing is written through \<open>logging\<close>, and the
  outcome (response and resulting state) is the one of a process whose configured secret is
  those same 32 bytes.
\<close>

theorem fallback_key_unmarked:
  assumes "ENCRYPTION_KEY w = None" and "reachable (db w)"
  shows "\<exists>r s. seal_bid E h (Inr p) tid w = (Inr r, s)
          \<and> bidHash r = generate_sha3_512_hash h
               (cbc_chain_encrypt (E (encode_utf8 ''dev_aes_256_key_32_bytes_long_12''))
                  (map (urandom w) [0..<16]) (pad p 16))
          \<and> message r = ''Bid sealed successfully with AES-256 encryption''
          \<and> log_records s = log_records w
          \<and> seal_bid E h (Inr p) tid (w\<lparr>ENCRYPTION_KEY := Some ''dev_aes_256_key_32_bytes_long_12''\<rparr>)
              = (Inr r, s\<lparr>ENCRYPTION_KEY := Some ''dev_aes_256_key_32_bytes_long_12''\<rparr>)"
proof -
  let ?w' = "w\<lparr>ENCRYPTION_KEY := Some ''dev_aes_256_key_32_bytes_long_12''\<rparr>"
  have k: "get_encryption_key (ENCRYPTION_KEY w)
             = Inr (encode_utf8 ''dev_aes_256_key_32_bytes_long_12'')"
    using assms(1) by (simp add: fallback_key_bytes)
  have k': "get_encryption_key (ENCRYPTION_KEY ?w')
             = Inr (encode_utf8 ''dev_aes_256_key_32_bytes_long_12'')"
    by (simp add: fallback_key_bytes)
  from assms(2) show ?thesis
    by (simp add: seal_bid_Inr [OF k] seal_bid_Inr [OF k'] Let_def)
qed

theorem fallback_key_unmarked_witness:
  "ENCRYPTION_KEY demo_world = None \<and> reachable (db demo_world)
   \<and> (\<exists>s. seal_bid demo_E demo_sha3_512 (Inr (encode_utf8 ''hello'')) ''TENDER-001'' demo_world
             = (Inr \<lparr>success = True, bidHash = ''0000000000000000000000000000000000000000000000000000000000000000000000000000000000000000000000000ee16fb9eeb2622fb662b879dce01d3d'', message = ''Bid sealed successfully with AES-256 encryption'', bidderId = ''71787f86-8d94-4ba2-a9b0-b7bec5ccd3da''\<rparr>, s)
          \<and> log_records s = []
          \<and> seal_bid demo_E demo_sha3_512 (Inr (encode_utf8 ''hello'')) ''TENDER-001''
               (demo_world\<lparr>ENCRYPTION_KEY := Some ''dev_aes_256_key_32_bytes_long_12''\<rparr>)
             = (Inr \<lparr>success = True, bidHash = ''0000000000000000000000000000000000000000000000000000000000000000000000000000000000000000000000000ee16fb9eeb2622fb662b879dce01d3d'', message = ''Bid sealed successfully with AES-256 encryption'', bidderId = ''71787f86-8d94-4ba2-a9b0-b7bec5ccd3da''\<rparr>, s\<lparr>ENCRYPTION_KEY := Some ''dev_aes_256_key_32_bytes_long_12''\<rparr>))"
proof -
  have k: "ENCRYPTION_KEY demo_world = None" and r: "reachable (db demo_world)"
    by (simp_all add: demo_world_simps)
  from fallback_key_unmarked [OF k r, of demo_E demo_sha3_512 "encode_utf8 ''hello''" "''TENDER-001''"]
  obtain r0 s where
    run: "seal_bid demo_E demo_sha3_512 (Inr (encode_utf8 ''hello'')) ''TENDER-001'' demo_world
            = (Inr r0, s)"
    and lg: "log_records s = log_records demo_world"
    and run': "seal_bid demo_E demo_sha3_512 (Inr (encode_utf8 ''hello'')) ''TENDER-001''
               (demo_world\<lparr>ENCRYPTION_KEY := Some ''dev_aes_256_key_32_bytes_long_12''\<rparr>)
             = (Inr r0, s\<lparr>ENCRYPTION_KEY := Some ''dev_aes_256_key_32_bytes_long_12''\<rparr>)"
    by blast
  from run demo_seal have "r0 = \<lparr>success = True, bidHash = ''0000000000000000000000000000000000000000000000000000000000000000000000000000000000000000000000000ee16fb9eeb2622fb662b879dce01d3d'', message = ''Bid sealed successfully with AES-256 encryption'', bidderId = ''71787f86-8d94-4ba2-a9b0-b7bec5ccd3da''\<rparr>" by simp
  with run run' lg k r show ?thesis by (auto simp add: demo_world_simps)
qed

text \<open>
  The claim as written fails: the run without a configured secret and the run with the
  secret configured give the same response, the same stored record and the same (empty) log.
\<close>

theorem fallback_key_marking_counterexample:
  "ENCRYPTION_KEY demo_world = None
   \<and> fst (seal_bid demo_E demo_sha3_512 (Inr (encode_utf8 ''hello'')) ''TENDER-001'' demo_world)
       = Inr \<lparr>success = True, bidHash = ''0000000000000000000000000000000000000000000000000000000000000000000000000000000000000000000000000ee16fb9eeb2622fb662b879dce01d3d'', message = ''Bid sealed successfully with AES-256 encryption'', bidderId = ''71787f86-8d94-4ba2-a9b0-b7bec5ccd3da''\<rparr>
   \<and> fst (seal_bid demo_E demo_sha3_512 (Inr (encode_utf8 ''hello'')) ''TENDER-001''
            (demo_world\<lparr>ENCRYPTION_KEY := Some ''dev_aes_256_key_32_bytes_long_12''\<rparr>))
       = Inr \<lparr>success = True, bidHash = ''0000000000000000000000000000000000000000000000000000000000000000000000000000000000000000000000000ee16fb9eeb2622fb662b879dce01d3d'', message = ''Bid sealed successfully with AES-256 encryption'', bidderId = ''71787f86-8d94-4ba2-a9b0-b7bec5ccd3da''\<rparr>
   \<and> db (snd (seal_bid demo_E demo_sha3_512 (Inr (encode_utf8 ''hello'')) ''TENDER-001'' demo_world))
       = db (snd (seal_bid demo_E demo_sha3_512 (Inr (encode_utf8 ''hello'')) ''TENDER-001''
            (demo_world\<lparr>ENCRYPTION_KEY := Some ''dev_aes_256_key_32_bytes_long_12''\<rparr>)))
   \<and> log_records (snd (seal_bid demo_E demo_sha3_512 (Inr (encode_utf8 ''hello'')) ''TENDER-001'' demo_world))
       = []
   \<and> log_records (snd (seal_bid demo_E demo_sha3_512 (Inr (encode_utf8 ''hello'')) ''TENDER-001''
            (demo_world\<lparr>ENCRYPTION_KEY := Some ''dev_aes_256_key_32_bytes_long_12''\<rparr>)))
       = []"
proof -
  let ?w' = "demo_world\<lparr>ENCRYPTION_KEY := Some ''dev_aes_256_key_32_bytes_long_12''\<rparr>"
  have k': "get_encryption_key (ENCRYPTION_KEY ?w')
             = Inr (encode_utf8 ''dev_aes_256_key_32_bytes_long_12'')"
    by (simp add: fallback_key_bytes)
  show ?thesis
    by (simp add: seal_bid_Inr [OF demo_key(1)] seal_bid_Inr [OF k'] Let_def demo_world_simps
        demo_iv demo_ciphertext generate_sha3_512_hash_def demo_digest demo_bidder)
qed

subsection \<open>C8\<close>

text \<open>
  C8. Reading the upload, encrypting, fingerprinting and assembling the record all come
  before the one insertion. So a seal operation that fails leaves the store exactly as it
  was and reports the HTTP error 500, and it fails because the upload could not be read,
  because encryption failed (the key could not be derived), or because the store was
  unreachable; when the upload cannot be read or encryption fails, the whole process state is
  left as it was; and a seal operation that succeeds has appended exactly one record.
\<close>

theorem seal_failure_leaves_store:
  "(\<forall>e s. seal_bid E h file tid w = (Inl e, s) \<longrightarrow>
        db s = db w
      \<and> (\<exists>m. e = HTTPException 500 (''Failed to seal bid: '' @ m))
      \<and> ((\<exists>x. file = Inl x)
         \<or> (\<exists>x. get_encryption_key (ENCRYPTION_KEY w) = Inl x)
         \<or> \<not> reachable (db w)))
   \<and> ((\<exists>x. file = Inl x) \<or> (\<exists>x. get_encryption_key (ENCRYPTION_KEY w) = Inl x) \<longrightarrow>
        (\<exists>m. seal_bid E h file tid w
                = (Inl (HTTPException 500 (''Failed to seal bid: '' @ m)), w)))
   \<and> (\<forall>r s. seal_bid E h file tid w = (Inr r, s) \<longrightarrow>
        (\<exists>d. db s = (db w)\<lparr>bids := bids (db w) @ [d], next_oid := Suc (next_oid (db w))\<rparr>))"
proof -
  have failure: "db s = db w
      \<and> (\<exists>m. e = HTTPException 500 (''Failed to seal bid: '' @ m))
      \<and> ((\<exists>x. file = Inl x)
         \<or> (\<exists>x. get_encryption_key (ENCRYPTION_KEY w) = Inl x)
         \<or> \<not> reachable (db w))"
    if run: "seal_bid E h file tid w = (Inl e, s)" for e s
  proof (cases "file")
    case (Inl x)
    with run show ?thesis by (auto simp add: seal_bid_read_failure)
  next
    case (Inr p)
    show ?thesis
    proof (cases "get_encryption_key (ENCRYPTION_KEY w)")
      case (Inl x)
      with run \<open>file = Inr p\<close> show ?thesis by (auto simp add: seal_bid_key_failure)
    next
      case k: (Inr k)
      with run \<open>file = Inr p\<close> show ?thesis
        by (auto simp add: seal_bid_Inr [OF k] Let_def split: if_splits)
    qed
  qed
  have early: "\<exists>m. seal_bid E h file tid w
                = (Inl (HTTPException 500 (''Failed to seal bid: '' @ m)), w)"
    if pre: "(\<exists>x. file = Inl x) \<or> (\<exists>x. get_encryption_key (ENCRYPTION_KEY w) = Inl x)"
  proof (cases "file")
    case (Inl x)
    then show ?thesis by (simp add: seal_bid_read_failure)
  next
    case (Inr p)
    with pre obtain x where "get_encryption_key (ENCRYPTION_KEY w) = Inl x" by auto
    with Inr show ?thesis by (simp add: seal_bid_key_failure)
  qed
  have success:
    "\<exists>d. db s = (db w)\<lparr>bids := bids (db w) @ [d], next_oid := Suc (next_oid (db w))\<rparr>"
    if run: "seal_bid E h file tid w = (Inr r, s)" for r s
  proof -
    from seal_bid_success [OF run] obtain p k where
      f: "file = Inr p" and k: "get_encryption_key (ENCRYPTION_KEY w) = Inr k"
      and ok: "reachable (db w)"
      by blast
    from run f ok show ?thesis
      by (auto simp add: seal_bid_Inr [OF k] Let_def)
  qed
  from failure early success show ?thesis by blast
qed

theorem seal_failure_leaves_store_witness:
  "get_encryption_key (ENCRYPTION_KEY (demo_world3\<lparr>ENCRYPTION_KEY := Some [CHR 0xED, CHR 0xB3, CHR 0xBF]\<rparr>))
     = Inl (UnicodeEncodeError ([CHR 0x27] @ ''utf-8'' @ [CHR 0x27] @ '' codec can'' @ [CHR 0x27] @ ''t encode character '' @ [CHR 0x27, CHR 0x5C] @ ''udcff'' @ [CHR 0x27] @ '' in position 0: surrogates not allowed''))
   \<and> seal_bid demo_E demo_sha3_512 (Inr (encode_utf8 ''hello'')) ''TENDER-001'' (demo_world3\<lparr>ENCRYPTION_KEY := Some [CHR 0xED, CHR 0xB3, CHR 0xBF]\<rparr>)
       = (Inl (HTTPException 500 (''Failed to seal bid: '' @ ([CHR 0x27] @ ''utf-8'' @ [CHR 0x27] @ '' codec can'' @ [CHR 0x27] @ ''t encode character '' @ [CHR 0x27, CHR 0x5C] @ ''udcff'' @ [CHR 0x27] @ '' in position 0: surrogates not allowed''))), (demo_world3\<lparr>ENCRYPTION_KEY := Some [CHR 0xED, CHR 0xB3, CHR 0xBF]\<rparr>))
   \<and> bids (db (demo_world3\<lparr>ENCRYPTION_KEY := Some [CHR 0xED, CHR 0xB3, CHR 0xBF]\<rparr>)) = demo_ledger
   \<and> seal_bid demo_E demo_sha3_512 (Inl (OSError ''read failed'')) ''TENDER-001'' demo_world3
       = (Inl (HTTPException 500 ''Failed to seal bid: read failed''), demo_world3)
   \<and> (\<exists>s d. seal_bid demo_E demo_sha3_512 (Inr (encode_utf8 ''hello'')) ''TENDER-001'' demo_world
               = (Inr \<lparr>success = True, bidHash = ''0000000000000000000000000000000000000000000000000000000000000000000000000000000000000000000000000ee16fb9eeb2622fb662b879dce01d3d'', message = ''Bid sealed successfully with AES-256 encryption'', bidderId = ''71787f86-8d94-4ba2-a9b0-b7bec5ccd3da''\<rparr>, s)
            \<and> db s = \<lparr>bids = [d], tender_updates = [], next_oid = 1, reachable = True\<rparr>)"
proof -
  let ?w4 = "(demo_world3\<lparr>ENCRYPTION_KEY := Some [CHR 0xED, CHR 0xB3, CHR 0xBF]\<rparr>)"
  let ?p = "encode_utf8 ''hello''"
  have bad: "get_encryption_key (ENCRYPTION_KEY ?w4)
               = Inl (UnicodeEncodeError ([CHR 0x27] @ ''utf-8'' @ [CHR 0x27] @ '' codec can'' @ [CHR 0x27] @ ''t encode character '' @ [CHR 0x27, CHR 0x5C] @ ''udcff'' @ [CHR 0x27] @ '' in position 0: surrogates not allowed''))"
    by (simp add: demo_bad_key)
  from seal_failure_leaves_store [of demo_E demo_sha3_512 "Inr ?p" "''TENDER-001''" ?w4] bad
  obtain m where
    "seal_bid demo_E demo_sha3_512 (Inr ?p) ''TENDER-001'' ?w4
       = (Inl (HTTPException 500 (''Failed to seal bid: '' @ m)), ?w4)"
    by blast
  moreover have "fst (seal_bid demo_E demo_sha3_512 (Inr ?p) ''TENDER-001'' ?w4)
       = Inl (HTTPException 500 (''Failed to seal bid: '' @ ([CHR 0x27] @ ''utf-8'' @ [CHR 0x27] @ '' codec can'' @ [CHR 0x27] @ ''t encode character '' @ [CHR 0x27, CHR 0x5C] @ ''udcff'' @ [CHR 0x27] @ '' in position 0: surrogates not allowed'')))"
    by (simp add: seal_bid_key_failure [OF bad])
  ultimately have fail:
    "seal_bid demo_E demo_sha3_512 (Inr ?p) ''TENDER-001'' ?w4
       = (Inl (HTTPException 500 (''Failed to seal bid: '' @ ([CHR 0x27] @ ''utf-8'' @ [CHR 0x27] @ '' codec can'' @ [CHR 0x27] @ ''t encode character '' @ [CHR 0x27, CHR 0x5C] @ ''udcff'' @ [CHR 0x27] @ '' in position 0: surrogates not allowed''))), ?w4)"
    by simp
  have ledger: "bids (db ?w4) = demo_ledger" by (simp add: demo_world3_def)
  have rd: "seal_bid demo_E demo_sha3_512 (Inl (OSError ''read failed'')) ''TENDER-001'' demo_world3
       = (Inl (HTTPException 500 ''Failed to seal bid: read failed''), demo_world3)"
    by (simp add: seal_bid_read_failure)
  let ?run = "seal_bid demo_E demo_sha3_512 (Inr ?p) ''TENDER-001'' demo_world"
  have run: "?run = (Inr \<lparr>success = True, bidHash = ''0000000000000000000000000000000000000000000000000000000000000000000000000000000000000000000000000ee16fb9eeb2622fb662b879dce01d3d'', message = ''Bid sealed successfully with AES-256 encryption'', bidderId = ''71787f86-8d94-4ba2-a9b0-b7bec5ccd3da''\<rparr>, snd ?run)"
    using demo_seal by (simp add: prod_eq_iff)
  from seal_failure_leaves_store [of demo_E demo_sha3_512 "Inr ?p" "''TENDER-001''" demo_world] run
  obtain d where "db (snd ?run)
      = (db demo_world)\<lparr>bids := bids (db demo_world) @ [d], next_oid := Suc (next_oid (db demo_world))\<rparr>"
    by blast
  then have "db (snd ?run) = \<lparr>bids = [d], tender_updates = [], next_oid = 1, reachable = True\<rparr>"
    by (simp add: demo_world_simps)
  with run bad fail ledger rd show ?thesis by blast
qed

subsection \<open>C9\<close>

text \<open>
  C9. Two seal operations on the same plaintext under the same process key whose
  initialization vectors differ produce different ciphertexts, and so different
  fingerprints unless the two ciphertexts are a collision of SHA3-512; each fingerprint is
  the digest of the ciphertext of its own operation.
\<close>

theorem distinct_iv_distinct_fingerprint:
  assumes inv: "block_cipher_inverts E D"
    and run: "seal_bid E h (Inr p) tid w = (Inr r, s)"
    and run': "seal_bid E h (Inr p) tid' w' = (Inr r', s')"
    and key: "ENCRYPTION_KEY w' = ENCRYPTION_KEY w"
    and enc: "fst (encrypt_file_content E (ENCRYPTION_KEY w) p (urandom w)) = Inr (c, iv)"
    and enc': "fst (encrypt_file_content E (ENCRYPTION_KEY w') p (urandom w')) = Inr (c', iv')"
    and iv: "iv \<noteq> iv'"
    and nc: "\<not> hash_collision h c c'"
  shows "c \<noteq> c' \<and> bidHash r \<noteq> bidHash r'
       \<and> bidHash r = generate_sha3_512_hash h c \<and> bidHash r' = generate_sha3_512_hash h c'"
proof -
  from seal_bid_success [OF run] obtain k where
    k: "get_encryption_key (ENCRYPTION_KEY w) = Inr k"
    by blast
  from k key have k': "get_encryption_key (ENCRYPTION_KEY w') = Inr k" by simp
  let ?k = "k"
  have c: "c = cbc_chain_encrypt (E ?k) iv (pad p 16)" and ivd: "iv = map (urandom w) [0..<16]"
    using enc by (auto simp add: encrypt_file_content_eq [OF k])
  have c': "c' = cbc_chain_encrypt (E ?k) iv' (pad p 16)" and ivd': "iv' = map (urandom w') [0..<16]"
    using enc' by (auto simp add: encrypt_file_content_eq [OF k'])
  have binv: "\<forall>b. length b = 16 \<longrightarrow> length (E ?k b) = 16 \<and> D ?k (E ?k b) = b"
    using inv by (simp add: block_cipher_inverts_def length_get_encryption_key [OF k])
  have liv: "length iv = 16" "length iv' = 16" by (simp_all add: ivd ivd')
  have cne: "c \<noteq> c'"
  proof
    assume "c = c'"
    then have "cbc_chain_encrypt (E ?k) iv (pad p 16) = cbc_chain_encrypt (E ?k) iv' (pad p 16)"
      by (simp add: c c')
    from cbc_chain_encrypt_iv_inj [OF binv liv length_pad_ge this] iv show False by simp
  qed
  have h: "bidHash r = generate_sha3_512_hash h c"
    using run unfolding c ivd by (auto simp add: seal_bid_Inr [OF k] Let_def split: if_splits)
  have h': "bidHash r' = generate_sha3_512_hash h c'"
    using run' unfolding c' ivd' by (auto simp add: seal_bid_Inr [OF k'] Let_def split: if_splits)
  from nc cne have "h c \<noteq> h c'" by (simp add: hash_collision_def)
  then have "hexdigest (h c) \<noteq> hexdigest (h c')"
    using hexdigest_inj [of "h c" "h c'"] by auto
  with cne h h' show ?thesis by (simp add: generate_sha3_512_hash_def)
qed

theorem distinct_iv_distinct_fingerprint_witness:
  "block_cipher_inverts demo_E demo_D
   \<and> ENCRYPTION_KEY demo_world2 = ENCRYPTION_KEY demo_world
   \<and> fst (encrypt_file_content demo_E (ENCRYPTION_KEY demo_world) (encode_utf8 ''hello'')
            (urandom demo_world)) = Inr ([13, 8, 21, 37, 19, 74, 83, 102, 0, 126, 122, 26, 53, 50, 17, 62], [1, 8, 15, 22, 29, 36, 43, 50, 57, 64, 71, 78, 85, 92, 99, 106])
   \<and> fst (encrypt_file_content demo_E (ENCRYPTION_KEY demo_world2) (encode_utf8 ''hello'')
            (urandom demo_world2)) = Inr ([14, 5, 18, 56, 0, 127, 108, 67, 35, 35, 29, 119, 70, 71, 94, 123], [2, 5, 8, 11, 14, 17, 20, 23, 26, 29, 32, 35, 38, 41, 44, 47])
   \<and> [1, 8, 15, 22, 29, 36, 43, 50, 57, 64, 71, 78, 85, 92, 99, 106] \<noteq> ([2, 5, 8, 11, 14, 17, 20, 23, 26, 29, 32, 35, 38, 41, 44, 47] :: bytes)
   \<and> \<not> hash_collision demo_sha3_512 [13, 8, 21, 37, 19, 74, 83, 102, 0, 126, 122, 26, 53, 50, 17, 62] [14, 5, 18, 56, 0, 127, 108, 67, 35, 35, 29, 119, 70, 71, 94, 123]
   \<and> fst (seal_bid demo_E demo_sha3_512 (Inr (encode_utf8 ''hello'')) ''TENDER-001'' demo_world)
       = Inr \<lparr>success = True, bidHash = ''0000000000000000000000000000000000000000000000000000000000000000000000000000000000000000000000000ee16fb9eeb2622fb662b879dce01d3d'', message = ''Bid sealed successfully with AES-256 encryption'', bidderId = ''71787f86-8d94-4ba2-a9b0-b7bec5ccd3da''\<rparr>
   \<and> fst (seal_bid demo_E demo_sha3_512 (Inr (encode_utf8 ''hello'')) ''TENDER-001'' demo_world2)
       = Inr \<lparr>success = True, bidHash = ''0000000000000000000000000000000000000000000000000000000000000000000000000000000000000000000000000fedac5ce7a48bb46597c23b137ee9db'', message = ''Bid sealed successfully with AES-256 encryption'', bidderId = ''3235383b-3e41-4447-8a4d-505356595c5f''\<rparr>
   \<and> bidHash \<lparr>success = True, bidHash = ''0000000000000000000000000000000000000000000000000000000000000000000000000000000000000000000000000ee16fb9eeb2622fb662b879dce01d3d'', message = ''Bid sealed successfully with AES-256 encryption'', bidderId = ''71787f86-8d94-4ba2-a9b0-b7bec5ccd3da''\<rparr> \<noteq> bidHash \<lparr>success = True, bidHash = ''0000000000000000000000000000000000000000000000000000000000000000000000000000000000000000000000000fedac5ce7a48bb46597c23b137ee9db'', message = ''Bid sealed successfully with AES-256 encryption'', bidderId = ''3235383b-3e41-4447-8a4d-505356595c5f''\<rparr>"
proof -
  let ?p = "encode_utf8 ''hello''"
  let ?run1 = "seal_bid demo_E demo_sha3_512 (Inr ?p) ''TENDER-001'' demo_world"
  let ?run2 = "seal_bid demo_E demo_sha3_512 (Inr ?p) ''TENDER-001'' demo_world2"
  have run1: "?run1 = (Inr \<lparr>success = True, bidHash = ''0000000000000000000000000000000000000000000000000000000000000000000000000000000000000000000000000ee16fb9eeb2622fb662b879dce01d3d'', message = ''Bid sealed successfully with AES-256 encryption'', bidderId = ''71787f86-8d94-4ba2-a9b0-b7bec5ccd3da''\<rparr>, snd ?run1)"
    using demo_seal by (simp add: prod_eq_iff)
  have run2: "?run2 = (Inr \<lparr>success = True, bidHash = ''0000000000000000000000000000000000000000000000000000000000000000000000000000000000000000000000000fedac5ce7a48bb46597c23b137ee9db'', message = ''Bid sealed successfully with AES-256 encryption'', bidderId = ''3235383b-3e41-4447-8a4d-505356595c5f''\<rparr>, snd ?run2)"
    using demo_seal2 by (simp add: prod_eq_iff)
  have key: "ENCRYPTION_KEY demo_world2 = ENCRYPTION_KEY demo_world"
    by (simp add: demo_world2_simps demo_world_simps)
  have enc1: "fst (encrypt_file_content demo_E (ENCRYPTION_KEY demo_world) ?p (urandom demo_world))
                = Inr ([13, 8, 21, 37, 19, 74, 83, 102, 0, 126, 122, 26, 53, 50, 17, 62], [1, 8, 15, 22, 29, 36, 43, 50, 57, 64, 71, 78, 85, 92, 99, 106])"
    by (simp add: encrypt_file_content_eq [OF demo_key(1)] demo_iv demo_ciphertext)
  have enc2: "fst (encrypt_file_content demo_E (ENCRYPTION_KEY demo_world2) ?p (urandom demo_world2))
                = Inr ([14, 5, 18, 56, 0, 127, 108, 67, 35, 35, 29, 119, 70, 71, 94, 123], [2, 5, 8, 11, 14, 17, 20, 23, 26, 29, 32, 35, 38, 41, 44, 47])"
    by (simp add: encrypt_file_content_eq [OF demo_key(2)] demo_iv2 demo_ciphertext2)
  have iv: "[1, 8, 15, 22, 29, 36, 43, 50, 57, 64, 71, 78, 85, 92, 99, 106] \<noteq> ([2, 5, 8, 11, 14, 17, 20, 23, 26, 29, 32, 35, 38, 41, 44, 47] :: bytes)" by simp
  from distinct_iv_distinct_fingerprint
         [OF demo_cipher_inverts run1 run2 key enc1 enc2 iv demo_no_collision]
  have "bidHash \<lparr>success = True, bidHash = ''0000000000000000000000000000000000000000000000000000000000000000000000000000000000000000000000000ee16fb9eeb2622fb662b879dce01d3d'', message = ''Bid sealed successfully with AES-256 encryption'', bidderId = ''71787f86-8d94-4ba2-a9b0-b7bec5ccd3da''\<rparr> \<noteq> bidHash \<lparr>success = True, bidHash = ''0000000000000000000000000000000000000000000000000000000000000000000000000000000000000000000000000fedac5ce7a48bb46597c23b137ee9db'', message = ''Bid sealed successfully with AES-256 encryption'', bidderId = ''3235383b-3e41-4447-8a4d-505356595c5f''\<rparr>" by blast
  with demo_cipher_inverts key enc1 enc2 iv demo_no_collision demo_seal demo_seal2
  show ?thesis by blast
qed

subsection \<open>C10\<close>

text \<open>
  C10. The triples \<open>("a:b", "c", "x")\<close> and \<open>("a", "b:c", "x")\<close> are different and both
  concatenate to \<open>"a:b:c:x"\<close>, so \<open>tender_update\<close> returns the same \<open>updateHash\<close> for both:
  the hash does not identify the triple.
\<close>

theorem update_hash_delimiter_collision:
  assumes "reachable (db w)"
  shows "\<exists>r1 s1 r2 s2.
           tender_update sha256 \<lparr>tenderId = ''a:b'', updateContent = ''c'', updatedBy = ''x''\<rparr> w = (Inr r1, s1)
         \<and> tender_update sha256 \<lparr>tenderId = ''a'', updateContent = ''b:c'', updatedBy = ''x''\<rparr> w = (Inr r2, s2)
         \<and> updateHash r1 = updateHash r2
         \<and> generate_sha256_hash sha256 ''a:b:c:x'' = Inr (updateHash r1)
         \<and> (\<lparr>tenderId = ''a:b'', updateContent = ''c'', updatedBy = ''x''\<rparr> :: TenderUpdate) \<noteq> \<lparr>tenderId = ''a'', updateContent = ''b:c'', updatedBy = ''x''\<rparr>"
  using assms
  by (simp add: tender_update_eq valid_utf8_ascii generate_sha256_hash_eq Let_def)

theorem update_hash_delimiter_collision_witness:
  "reachable (db demo_world)
   \<and> fst (tender_update demo_sha256 \<lparr>tenderId = ''a:b'', updateContent = ''c'', updatedBy = ''x''\<rparr> demo_world)
       = Inr \<lparr>update_success = True, updateHash = ''00000000000000000000000000000000000000000000000000648e53c879b553'',
               update_timestamp = ''2024-05-01T10:00:00+00:00''\<rparr>
   \<and> fst (tender_update demo_sha256 \<lparr>tenderId = ''a'', updateContent = ''b:c'', updatedBy = ''x''\<rparr> demo_world)
       = Inr \<lparr>update_success = True, updateHash = ''00000000000000000000000000000000000000000000000000648e53c879b553'',
               update_timestamp = ''2024-05-01T10:00:00+00:00''\<rparr>
   \<and> (\<lparr>tenderId = ''a:b'', updateContent = ''c'', updatedBy = ''x''\<rparr> :: TenderUpdate) \<noteq> \<lparr>tenderId = ''a'', updateContent = ''b:c'', updatedBy = ''x''\<rparr>"
proof -
  have r: "reachable (db demo_world)" by (simp add: demo_world_simps)
  from update_hash_delimiter_collision [OF r, of demo_sha256]
  obtain r1 s1 r2 s2 where
    run1: "tender_update demo_sha256 \<lparr>tenderId = ''a:b'', updateContent = ''c'', updatedBy = ''x''\<rparr> demo_world = (Inr r1, s1)"
    and run2: "tender_update demo_sha256 \<lparr>tenderId = ''a'', updateContent = ''b:c'', updatedBy = ''x''\<rparr> demo_world = (Inr r2, s2)"
    and eq: "updateHash r1 = updateHash r2"
    and ne: "(\<lparr>tenderId = ''a:b'', updateContent = ''c'', updatedBy = ''x''\<rparr> :: TenderUpdate) \<noteq> \<lparr>tenderId = ''a'', updateContent = ''b:c'', updatedBy = ''x''\<rparr>"
    by blast
  have "fst (tender_update demo_sha256 \<lparr>tenderId = ''a:b'', updateContent = ''c'', updatedBy = ''x''\<rparr> demo_world)
       = Inr \<lparr>update_success = True, updateHash = ''00000000000000000000000000000000000000000000000000648e53c879b553'',
               update_timestamp = ''2024-05-01T10:00:00+00:00''\<rparr>"
    by (simp add: tender_update_eq valid_utf8_ascii Let_def demo_world_simps
        demo_update_digest_abcx)
  with run1 have r1: "r1 = \<lparr>update_success = True, updateHash = ''00000000000000000000000000000000000000000000000000648e53c879b553'',
               update_timestamp = ''2024-05-01T10:00:00+00:00''\<rparr>" by simp
  from run2 r have "update_success r2 = True" "update_timestamp r2 = ''2024-05-01T10:00:00+00:00''"
    by (auto simp add: tender_update_eq valid_utf8_ascii Let_def demo_world_simps)
  with eq r1 have "r2 = \<lparr>update_success = True, updateHash = ''00000000000000000000000000000000000000000000000000648e53c879b553'',
               update_timestamp = ''2024-05-01T10:00:00+00:00''\<rparr>" by simp
  with r1 run1 run2 r ne show ?thesis by simp
qed

end
